theory Spec2Isabelle
  imports Complex_Main "HOL-Library.AList"
begin

section \<open>Strings, errors and replies of the record store\<close>

text \<open>
  Strings are lists of code units. The Swedish letters of the messages lie below 256, so
  each of them is one \<^typ>\<open>char\<close>: 0xE4 is a-umlaut, 0xE5 is a-ring, 0xF6 is o-umlaut.
\<close>

definition a_uml :: string where
  "a_uml = [CHR 0xE4]"

definition a_ring :: string where
  "a_ring = [CHR 0xE5]"

definition o_uml :: string where
  "o_uml = [CHR 0xF6]"

text \<open>A JavaScript \<open>Error\<close> object, identified by its message.\<close>

datatype error = Error string

text \<open>
  What an awaited call of the store client or of the notification module does: it yields
  data, it yields \<open>{ data: null, error: { message } }\<close>, or its promise rejects.
\<close>

datatype outcome = Succeeds | Fails string | Throws string

text \<open>
  The result of awaiting a function that is not wrapped in a \<open>try\<close> of its own: the value
  it resolves to, or the message of the exception it rejects with.
\<close>

datatype 'a awaited = Resolved 'a | Rejected string

text \<open>Truthiness of a value of type \<open>string | null\<close>: null and the empty string are falsy.\<close>

fun truthy :: "string option \<Rightarrow> bool" where
  "truthy None = False"
| "truthy (Some u) = (u \<noteq> [])"

text \<open>A template literal prints a missing value as \<open>undefined\<close>.\<close>

fun interpolate :: "string option \<Rightarrow> string" where
  "interpolate None = ''undefined''"
| "interpolate (Some t) = t"

section \<open>Data model of the order module\<close>

text \<open>
  A row of table \<open>orders\<close> without its primary key \<open>id\<close>, which is the key of the table.
  Columns that no function below reads are left out.
\<close>

record order =
  order_organisation_id :: string
  order_title :: string
  order_status :: string
  order_value :: "real option"
  order_assigned_to_user_id :: "string option"
  order_assigned_to_team_id :: "string option"

text \<open>
  \<open>Partial<Order>\<close>: every field may be absent (\<open>None\<close>); a nullable column that is
  present holds \<open>Some None\<close> for null.
\<close>

record order_patch =
  patch_title :: "string option"
  patch_status :: "string option"
  patch_value :: "real option option"
  patch_assigned_to_user_id :: "string option option"
  patch_assigned_to_team_id :: "string option option"

record team =
  team_name :: string
  team_members :: "string list"

record order_activity =
  activity_order_id :: string
  activity_user_id :: "string option"
  activity_type :: string
  activity_description :: string
  activity_old_value :: "string option"
  activity_new_value :: "string option"

record order_note =
  note_order_id :: string
  note_user_id :: string
  note_content :: string

text \<open>
  The notification handed to \<open>createNotification\<close>, named after the generator of module
  \<open>./notifications\<close> that builds it, with the generator's arguments in their order.
\<close>

datatype notification =
    OrderAssignmentNotification string string string
  | StatusUpdateNotification string string "string option" "string option" string
  | TeamAssignmentNotification string string string string "string option"

text \<open>The side effects of the module, in the order in which they complete.\<close>

datatype effect =
    OrderInserted string
  | OrderWritten string
  | NoteInserted order_note
  | ActivityAppended order_activity
  | NotificationEnqueued notification
  | ConsoleError string

record store =
  orders :: "(string \<times> order) list"
  teams :: "(string \<times> team) list"
  order_notes :: "order_note list"
  order_activities :: "order_activity list"
  notifications :: "notification list"
  journal :: "effect list"

text \<open>
  What the module does not decide itself: the label table \<open>ORDER_STATUS_LABELS\<close> of
  \<open>../types/database\<close>, the replies of the store to each call, the identifier the store
  gives a new order, and the message of \<open>.single()\<close> when no row matches.
\<close>

record env =
  ORDER_STATUS_LABELS :: "string \<rightharpoonup> string"
  select_reply :: outcome
  update_reply :: outcome
  insert_order_reply :: outcome
  insert_note_reply :: outcome
  generated_id :: string
  no_rows_message :: string
  activity_reply :: "order_activity \<Rightarrow> outcome"
  notification_reply :: "notification \<Rightarrow> outcome"

definition log_error :: "string \<Rightarrow> store \<Rightarrow> store" where
  "log_error msg s = s\<lparr>journal := journal s @ [ConsoleError msg]\<rparr>"

section \<open>Activities\<close>

definition createOrderActivity ::
  "env \<Rightarrow> string \<Rightarrow> string option \<Rightarrow> string \<Rightarrow> string \<Rightarrow> string option \<Rightarrow> string option
     \<Rightarrow> store \<Rightarrow> (error + order_activity) \<times> store" where
  "createOrderActivity e orderId userId activityType description oldValue newValue s =
     (let a = \<lparr>activity_order_id = orderId, activity_user_id = userId,
                activity_type = activityType, activity_description = description,
                activity_old_value = oldValue, activity_new_value = newValue\<rparr>
      in case activity_reply e a of
           Succeeds \<Rightarrow>
             (Inr a, s\<lparr>order_activities := order_activities s @ [a],
                       journal := journal s @ [ActivityAppended a]\<rparr>)
         | Fails m \<Rightarrow> (Inl (Error m), s)
         | Throws m \<Rightarrow> (Inl (Error m), log_error ''Error creating order activity:'' s))"

section \<open>Creating an order\<close>

definition createOrder :: "env \<Rightarrow> order \<Rightarrow> store \<Rightarrow> (error + string \<times> order) \<times> store" where
  "createOrder e ord s =
     (case insert_order_reply e of
        Throws m \<Rightarrow> (Inl (Error m), log_error ''Error creating order:'' s)
      | Fails m \<Rightarrow> (Inl (Error m), s)
      | Succeeds \<Rightarrow>
          (let newId = generated_id e;
               s1 = s\<lparr>orders := orders s @ [(newId, ord)],
                      journal := journal s @ [OrderInserted newId]\<rparr>;
               s2 = snd (createOrderActivity e newId None ''created'' ''Order skapad'' None None s1)
           in (Inr (newId, ord), s2)))"

section \<open>Notifications\<close>

text \<open>
  Modelled from the spec: \<open>createNotification\<close> is defined in \<open>./notifications\<close>, which
  is not among the sources. Following the dispatcher contract
  (\<open>dispatch(...) -> Notification | Error\<close>, no retry), it enqueues the notification or
  resolves to a delivery failure; the \<open>try\<close> around its call in
  \<open>createStatusChangeNotification\<close> shows that its promise may also reject.
\<close>

definition createNotification ::
  "env \<Rightarrow> notification \<Rightarrow> store \<Rightarrow> (error + notification) awaited \<times> store" where
  "createNotification e n s =
     (case notification_reply e n of
        Succeeds \<Rightarrow>
          (Resolved (Inr n), s\<lparr>notifications := notifications s @ [n],
                                journal := journal s @ [NotificationEnqueued n]\<rparr>)
      | Fails m \<Rightarrow> (Resolved (Inl (Error m)), s)
      | Throws m \<Rightarrow> (Rejected m, s))"

definition createStatusChangeNotification ::
  "env \<Rightarrow> string \<Rightarrow> string \<Rightarrow> string \<Rightarrow> string \<Rightarrow> string \<Rightarrow> store \<Rightarrow> store" where
  "createStatusChangeNotification e userId orderId orderTitle oldStatus newStatus s =
     (case createNotification e
             (StatusUpdateNotification userId orderTitle
                (ORDER_STATUS_LABELS e oldStatus) (ORDER_STATUS_LABELS e newStatus)
                (''/ordrar?highlight='' @ orderId)) s of
        (Resolved r, s1) \<Rightarrow> s1
      | (Rejected m, s1) \<Rightarrow> log_error ''Error creating status change notification:'' s1)"

section \<open>Updating an order\<close>

definition apply_patch :: "order_patch \<Rightarrow> order \<Rightarrow> order" where
  "apply_patch p ord =
     \<lparr>order_organisation_id = order_organisation_id ord,
      order_title = (case patch_title p of None \<Rightarrow> order_title ord | Some t \<Rightarrow> t),
      order_status = (case patch_status p of None \<Rightarrow> order_status ord | Some st \<Rightarrow> st),
      order_value = (case patch_value p of None \<Rightarrow> order_value ord | Some v \<Rightarrow> v),
      order_assigned_to_user_id =
        (case patch_assigned_to_user_id p of
           None \<Rightarrow> order_assigned_to_user_id ord | Some u \<Rightarrow> u),
      order_assigned_to_team_id =
        (case patch_assigned_to_team_id p of
           None \<Rightarrow> order_assigned_to_team_id ord | Some t \<Rightarrow> t)\<rparr>"

text \<open>The joined relation \<open>assigned_team\<close> of the returned row.\<close>

definition assigned_team :: "store \<Rightarrow> order \<Rightarrow> team option" where
  "assigned_team s ord =
     (case order_assigned_to_team_id ord of None \<Rightarrow> None | Some t \<Rightarrow> map_of (teams s) t)"

definition status_description :: "env \<Rightarrow> string \<Rightarrow> string \<Rightarrow> string" where
  "status_description e oldStatus newStatus =
     ''Status '' @ a_uml @ ''ndrad fr'' @ a_ring @ ''n ''
       @ interpolate (ORDER_STATUS_LABELS e oldStatus)
       @ '' till '' @ interpolate (ORDER_STATUS_LABELS e newStatus)"

text \<open>
  The three blocks of \<open>updateOrder\<close> that follow a successful write, in their order.
  The first cannot raise; the other two return \<open>Some\<close> message when the awaited
  \<open>createNotification\<close> rejects, which ends the \<open>try\<close> block.
\<close>

definition status_step ::
  "env \<Rightarrow> string \<Rightarrow> order_patch \<Rightarrow> order \<Rightarrow> order \<Rightarrow> store \<Rightarrow> store" where
  "status_step e orderId updates currentOrder dat s =
     (case patch_status updates of
        None \<Rightarrow> s
      | Some newStatus \<Rightarrow>
          if newStatus \<noteq> [] \<and> newStatus \<noteq> order_status currentOrder then
            (let s1 = (case order_assigned_to_user_id dat of
                         None \<Rightarrow> s
                       | Some u \<Rightarrow>
                           if u \<noteq> [] then
                             createStatusChangeNotification e u orderId (order_title dat)
                               (order_status currentOrder) newStatus s
                           else s)
             in snd (createOrderActivity e orderId None ''status_changed''
                       (status_description e (order_status currentOrder) newStatus)
                       (Some (order_status currentOrder)) (Some newStatus) s1))
          else s)"

definition assign_step ::
  "env \<Rightarrow> string \<Rightarrow> order_patch \<Rightarrow> order \<Rightarrow> order \<Rightarrow> store \<Rightarrow> string option \<times> store" where
  "assign_step e orderId updates currentOrder dat s =
     (case patch_assigned_to_user_id updates of
        None \<Rightarrow> (None, s)
      | Some newUser \<Rightarrow>
          if newUser \<noteq> order_assigned_to_user_id currentOrder then
            (case (case newUser of
                     None \<Rightarrow> (None, s)
                   | Some u \<Rightarrow>
                       if u \<noteq> [] then
                         (case createNotification e
                                 (OrderAssignmentNotification u orderId (order_title dat)) s of
                            (Rejected m, s1) \<Rightarrow> (Some m, s1)
                          | (Resolved r, s1) \<Rightarrow> (None, s1))
                       else (None, s)) of
               (Some m, s1) \<Rightarrow> (Some m, s1)
             | (None, s1) \<Rightarrow>
                 (None, snd (createOrderActivity e orderId None ''assigned''
                               (if truthy newUser then ''Order tilldelad''
                                else ''Tilldelning borttagen'') None None s1)))
          else (None, s))"

definition team_step ::
  "env \<Rightarrow> string \<Rightarrow> order_patch \<Rightarrow> order \<Rightarrow> order \<Rightarrow> store \<Rightarrow> string option \<times> store" where
  "team_step e orderId updates currentOrder dat s =
     (case patch_assigned_to_team_id updates of
        None \<Rightarrow> (None, s)
      | Some newTeam \<Rightarrow>
          if newTeam \<noteq> order_assigned_to_team_id currentOrder then
            (case (case (newTeam, assigned_team s dat) of
                     (Some t, Some tm) \<Rightarrow>
                       if t \<noteq> [] then
                         (case createNotification e
                                 (TeamAssignmentNotification t orderId (order_title dat)
                                    (team_name tm)
                                    (if truthy (order_assigned_to_user_id currentOrder)
                                     then order_assigned_to_user_id currentOrder else None)) s of
                            (Rejected m, s1) \<Rightarrow> (Some m, s1)
                          | (Resolved r, s1) \<Rightarrow> (None, s1))
                       else (None, s)
                   | _ \<Rightarrow> (None, s)) of
               (Some m, s1) \<Rightarrow> (Some m, s1)
             | (None, s1) \<Rightarrow>
                 (None, snd (createOrderActivity e orderId None ''team_assigned''
                               (if truthy newTeam then
                                  ''Order tilldelad till team: ''
                                    @ interpolate (map_option team_name (assigned_team s dat))
                                else ''Team-tilldelning borttagen'') None None s1)))
          else (None, s))"

text \<open>The \<open>catch\<close> block of \<open>updateOrder\<close>.\<close>

definition updateOrder_catch :: "string \<Rightarrow> store \<Rightarrow> (error + string \<times> order) \<times> store" where
  "updateOrder_catch m s = (Inl (Error m), log_error ''Error updating order:'' s)"

definition updateOrder ::
  "env \<Rightarrow> string \<Rightarrow> order_patch \<Rightarrow> store \<Rightarrow> (error + string \<times> order) \<times> store" where
  "updateOrder e orderId updates s =
     (case select_reply e of
        Throws m \<Rightarrow> updateOrder_catch m s
      | sel \<Rightarrow>
          (let currentOrder = (case sel of Succeeds \<Rightarrow> map_of (orders s) orderId | _ \<Rightarrow> None)
           in case update_reply e of
                Throws m \<Rightarrow> updateOrder_catch m s
              | Fails m \<Rightarrow> (Inl (Error m), s)
              | Succeeds \<Rightarrow>
                  (case map_of (orders s) orderId of
                     None \<Rightarrow> (Inl (Error (no_rows_message e)), s)
                   | Some row \<Rightarrow>
                       (let dat = apply_patch updates row;
                            s1 = s\<lparr>orders := AList.update orderId dat (orders s),
                                   journal := journal s @ [OrderWritten orderId]\<rparr>
                        in case currentOrder of
                             None \<Rightarrow> (Inr (orderId, dat), s1)
                           | Some cur \<Rightarrow>
                               (let s2 = status_step e orderId updates cur dat s1
                                in case assign_step e orderId updates cur dat s2 of
                                     (Some m, s3) \<Rightarrow> updateOrder_catch m s3
                                   | (None, s3) \<Rightarrow>
                                       (case team_step e orderId updates cur dat s3 of
                                          (Some m, s4) \<Rightarrow> updateOrder_catch m s4
                                        | (None, s4) \<Rightarrow> (Inr (orderId, dat), s4)))))))"

section \<open>Notes\<close>

definition createOrderNote :: "env \<Rightarrow> order_note \<Rightarrow> store \<Rightarrow> (error + order_note) \<times> store" where
  "createOrderNote e note s =
     (case insert_note_reply e of
        Throws m \<Rightarrow> (Inl (Error m), log_error ''Error creating order note:'' s)
      | Fails m \<Rightarrow> (Inl (Error m), s)
      | Succeeds \<Rightarrow>
          (let s1 = s\<lparr>order_notes := order_notes s @ [note],
                      journal := journal s @ [NoteInserted note]\<rparr>;
               s2 = snd (createOrderActivity e (note_order_id note) (Some (note_user_id note))
                           ''note_added'' ''Anteckning tillagd'' None None s1)
           in (Inr note, s2)))"

section \<open>Statistics\<close>

text \<open>
  JavaScript numbers are taken as exact reals, rounding set aside; what a division gives
  when the divisor is zero is kept: \<open>0 / 0\<close> is \<open>NaN\<close>, otherwise an infinity.
\<close>

datatype number = Num real | NaN | Infinity | NegInfinity

definition divide_number :: "real \<Rightarrow> real \<Rightarrow> number" where
  "divide_number a b =
     (if b \<noteq> 0 then Num (a / b)
      else if a = 0 then NaN
      else if 0 < a then Infinity else NegInfinity)"

text \<open>\<open>order.value || 0\<close>: null gives 0 (and so does the value 0).\<close>

fun or_zero :: "real option \<Rightarrow> real" where
  "or_zero None = 0"
| "or_zero (Some v) = v"

definition count_status :: "(string \<rightharpoonup> nat) \<Rightarrow> order \<Rightarrow> (string \<rightharpoonup> nat)" where
  "count_status acc ord =
     acc(order_status ord \<mapsto> (case acc (order_status ord) of None \<Rightarrow> 0 | Some c \<Rightarrow> c) + 1)"

record order_stats =
  totalOrders :: nat
  totalValue :: real
  averageValue :: number
  statusBreakdown :: "string \<rightharpoonup> nat"
  recentOrders :: "order list"

text \<open>
  The query is built and run by the store client; \<open>getOrderStats\<close> is modelled from the
  reply on: \<open>reply\<close> says how the awaited query ended, \<open>fetched\<close> is the \<open>data\<close> of a
  successful reply (null is \<open>None\<close>).
\<close>

definition getOrderStats ::
  "outcome \<Rightarrow> order list option \<Rightarrow> store \<Rightarrow> (error + order_stats) \<times> store" where
  "getOrderStats reply fetched s =
     (case reply of
        Throws m \<Rightarrow> (Inl (Error m), log_error ''Error fetching order stats:'' s)
      | Fails m \<Rightarrow> (Inl (Error m), s)
      | Succeeds \<Rightarrow>
          (let os = (case fetched of None \<Rightarrow> [] | Some rows \<Rightarrow> rows);
               n = length os;
               total = foldl (\<lambda>sum ord. sum + or_zero (order_value ord)) 0 os;
               average = (if n > 0 then divide_number total (real n) else Num 0)
           in (Inr \<lparr>totalOrders = n, totalValue = total, averageValue = average,
                     statusBreakdown = foldl count_status Map.empty os,
                     recentOrders = take 5 os\<rparr>, s)))"

section \<open>Recipients of a notification\<close>

text \<open>
  Modelled from the spec: the generators of \<open>./notifications\<close> are not among the sources.
  A notification for a user is addressed to that user; a team notification is addressed
  to all members of the team except the user passed as the one to leave out.
\<close>

fun recipients :: "store \<Rightarrow> notification \<Rightarrow> string list" where
  "recipients s (OrderAssignmentNotification u orderId orderTitle) = [u]"
| "recipients s (StatusUpdateNotification u orderTitle oldLabel newLabel link) = [u]"
| "recipients s (TeamAssignmentNotification t orderId orderTitle teamName excluded) =
     (case map_of (teams s) t of
        None \<Rightarrow> []
      | Some tm \<Rightarrow> filter (\<lambda>u. Some u \<noteq> excluded) (team_members tm))"

section \<open>The lead board\<close>

record user_profile =
  profile_id :: string
  full_name :: string

record lead =
  lead_id :: string
  lead_title :: string
  lead_status :: string
  lead_assigned_to_user_id :: "string option"
  lead_assigned_to :: "user_profile option"

record lead_patch =
  lead_patch_status :: "string option"
  lead_patch_assigned_to_user_id :: "string option option"

record lead_activity =
  lead_activity_lead_id :: string
  lead_activity_user_id :: "string option"
  lead_activity_type :: string
  lead_activity_description :: string
  lead_activity_old_value :: "string option"
  lead_activity_new_value :: "string option"

record lead_note =
  lead_note_lead_id :: string
  lead_note_user_id :: string
  lead_note_content :: string

datatype toast = ShowError string string | Success string string

text \<open>The tables behind \<open>../lib/database\<close> that the board writes to.\<close>

record lead_db =
  lead_rows :: "lead list"
  lead_activities :: "lead_activity list"
  lead_notes :: "lead_note list"

text \<open>The replies of the store to the calls of \<open>../lib/database\<close>.\<close>

record lead_env =
  update_lead_reply :: outcome
  lead_activity_reply :: "lead_activity \<Rightarrow> outcome"
  lead_note_reply :: outcome
  lead_no_rows_message :: string

text \<open>The state of component \<open>LeadKanban\<close> that its handlers read or set.\<close>

record kanban =
  user :: "string option"
  leads :: "lead list"
  teamMembers :: "user_profile list"
  selectedLead :: "lead option"
  draggedLead :: "lead option"
  isUpdatingAssignment :: bool
  newNote :: string
  isAddingNote :: bool
  leadNotes :: "lead_note list"
  toasts :: "toast list"
  console :: "string list"

definition apply_lead_patch :: "lead_patch \<Rightarrow> lead \<Rightarrow> lead" where
  "apply_lead_patch p l =
     l\<lparr>lead_status := (case lead_patch_status p of None \<Rightarrow> lead_status l | Some st \<Rightarrow> st),
       lead_assigned_to_user_id :=
         (case lead_patch_assigned_to_user_id p of
            None \<Rightarrow> lead_assigned_to_user_id l | Some u \<Rightarrow> u)\<rparr>"

text \<open>
  Modelled from the spec: \<open>updateLead\<close> of \<open>../lib/database\<close> is not among the sources.
  It is the record store's \<open>update(kind, id, patch)\<close>, returning the record or a
  structured error; the board's handlers write the audit entry themselves.
\<close>

definition updateLead ::
  "lead_env \<Rightarrow> string \<Rightarrow> lead_patch \<Rightarrow> lead_db \<Rightarrow> (error + lead) awaited \<times> lead_db" where
  "updateLead e leadId p d =
     (case update_lead_reply e of
        Throws m \<Rightarrow> (Rejected m, d)
      | Fails m \<Rightarrow> (Resolved (Inl (Error m)), d)
      | Succeeds \<Rightarrow>
          (case find (\<lambda>l. lead_id l = leadId) (lead_rows d) of
             None \<Rightarrow> (Resolved (Inl (Error (lead_no_rows_message e))), d)
           | Some l \<Rightarrow>
               (Resolved (Inr (apply_lead_patch p l)),
                d\<lparr>lead_rows :=
                    map (\<lambda>r. if lead_id r = leadId then apply_lead_patch p r else r)
                      (lead_rows d)\<rparr>)))"

text \<open>
  Modelled from the spec: \<open>createLeadActivity\<close> of \<open>../lib/database\<close> is not among the
  sources. It is the audit log's \<open>append\<close>, shaped like \<open>createOrderActivity\<close>; the
  board passes no old or new value.
\<close>

definition createLeadActivity ::
  "lead_env \<Rightarrow> string \<Rightarrow> string \<Rightarrow> string \<Rightarrow> string \<Rightarrow> lead_db
     \<Rightarrow> (error + lead_activity) awaited \<times> lead_db" where
  "createLeadActivity e leadId userId activityType description d =
     (let a = \<lparr>lead_activity_lead_id = leadId, lead_activity_user_id = Some userId,
                lead_activity_type = activityType, lead_activity_description = description,
                lead_activity_old_value = None, lead_activity_new_value = None\<rparr>
      in case lead_activity_reply e a of
           Succeeds \<Rightarrow> (Resolved (Inr a), d\<lparr>lead_activities := lead_activities d @ [a]\<rparr>)
         | Fails m \<Rightarrow> (Resolved (Inl (Error m)), d)
         | Throws m \<Rightarrow> (Rejected m, d))"

text \<open>
  Modelled from the spec: \<open>createLeadNote\<close> of \<open>../lib/database\<close> is not among the
  sources. It is the record store's \<open>insert\<close> of a note.
\<close>

definition createLeadNote ::
  "lead_env \<Rightarrow> string \<Rightarrow> string \<Rightarrow> string \<Rightarrow> lead_db \<Rightarrow> (error + lead_note) awaited \<times> lead_db" where
  "createLeadNote e leadId userId content d =
     (let n = \<lparr>lead_note_lead_id = leadId, lead_note_user_id = userId,
                lead_note_content = content\<rparr>
      in case lead_note_reply e of
           Succeeds \<Rightarrow> (Resolved (Inr n), d\<lparr>lead_notes := lead_notes d @ [n]\<rparr>)
         | Fails m \<Rightarrow> (Resolved (Inl (Error m)), d)
         | Throws m \<Rightarrow> (Rejected m, d))"

text \<open>The label table local to \<open>handleStatusChange\<close>.\<close>

definition statusLabels :: "string \<rightharpoonup> string" where
  "statusLabels = map_of
     [(''new'', ''Ny''), (''contacted'', ''Kontaktad''), (''qualified'', ''Kvalificerad''),
      (''won'', ''Vunnen''), (''lost'', ''F'' @ o_uml @ ''rlorad'')]"

text \<open>
  The handlers. \<open>loadLeadDetails\<close>, which they start without awaiting it, only reloads
  the lists shown in the detail dialog and is left out.
\<close>

definition handleStatusChange ::
  "lead_env \<Rightarrow> string \<Rightarrow> string \<Rightarrow> string \<Rightarrow> kanban \<Rightarrow> lead_db \<Rightarrow> kanban \<times> lead_db" where
  "handleStatusChange e leadId newStatus oldStatus k d =
     (case user k of
        None \<Rightarrow> (k, d)
      | Some uid \<Rightarrow>
          (let description =
                 ''Status '' @ a_uml @ ''ndrad fr'' @ a_ring @ ''n ''
                   @ interpolate (statusLabels oldStatus)
                   @ '' till '' @ interpolate (statusLabels newStatus)
           in case createLeadActivity e leadId uid ''status_change'' description d of
                (Resolved r, d1) \<Rightarrow> (k, d1)
              | (Rejected m, d1) \<Rightarrow>
                  (k\<lparr>console := console k @ [''Error logging status change:'']\<rparr>, d1)))"

definition handleDrop ::
  "lead_env \<Rightarrow> string \<Rightarrow> kanban \<Rightarrow> lead_db \<Rightarrow> kanban \<times> lead_db" where
  "handleDrop e newStatus k d =
     (case draggedLead k of
        None \<Rightarrow> (k\<lparr>draggedLead := None\<rparr>, d)
      | Some dragged \<Rightarrow>
          if lead_status dragged = newStatus then (k\<lparr>draggedLead := None\<rparr>, d)
          else
            (case updateLead e (lead_id dragged)
                    \<lparr>lead_patch_status = Some newStatus,
                     lead_patch_assigned_to_user_id = None\<rparr> d of
               (Rejected m, d1) \<Rightarrow>
                 (k\<lparr>console := console k @ [''Error updating lead status:''],
                    toasts := toasts k
                      @ [ShowError ''Uppdateringsfel'' ''Kunde inte uppdatera lead-status.''],
                    draggedLead := None\<rparr>, d1)
             | (Resolved (Inl (Error m)), d1) \<Rightarrow>
                 (k\<lparr>toasts := toasts k @ [ShowError ''Uppdateringsfel'' m],
                    draggedLead := None\<rparr>, d1)
             | (Resolved (Inr r), d1) \<Rightarrow>
                 (let k1 = k\<lparr>leads :=
                              map (\<lambda>l. if lead_id l = lead_id dragged
                                        then l\<lparr>lead_status := newStatus\<rparr> else l) (leads k)\<rparr>;
                      (k2, d2) = handleStatusChange e (lead_id dragged) newStatus
                                   (lead_status dragged) k1 d1
                  in (k2\<lparr>draggedLead := None\<rparr>, d2))))"

text \<open>\<open>newAssignedUserId || null\<close>: the empty string of the select box becomes null.\<close>

definition or_null :: "string \<Rightarrow> string option" where
  "or_null u = (if u = [] then None else Some u)"

definition assign_locally :: "kanban \<Rightarrow> string \<Rightarrow> lead \<Rightarrow> lead" where
  "assign_locally k newAssignedUserId l =
     l\<lparr>lead_assigned_to_user_id := or_null newAssignedUserId,
       lead_assigned_to :=
         (if newAssignedUserId \<noteq> []
          then find (\<lambda>member. profile_id member = newAssignedUserId) (teamMembers k)
          else None)\<rparr>"

definition handleAssignmentChange ::
  "lead_env \<Rightarrow> string \<Rightarrow> string \<Rightarrow> kanban \<Rightarrow> lead_db \<Rightarrow> kanban \<times> lead_db" where
  "handleAssignmentChange e leadId newAssignedUserId k d =
     (case updateLead e leadId
             \<lparr>lead_patch_status = None,
              lead_patch_assigned_to_user_id = Some (or_null newAssignedUserId)\<rparr> d of
        (Rejected m, d1) \<Rightarrow>
          (k\<lparr>console := console k @ [''Error updating lead assignment:''],
             toasts := toasts k
               @ [ShowError ''Tilldelningsfel'' ''Kunde inte uppdatera tilldelning.''],
             isUpdatingAssignment := False\<rparr>, d1)
      | (Resolved (Inl (Error m)), d1) \<Rightarrow>
          (k\<lparr>toasts := toasts k @ [ShowError ''Tilldelningsfel'' m],
             isUpdatingAssignment := False\<rparr>, d1)
      | (Resolved (Inr r), d1) \<Rightarrow>
          (let k1 = k\<lparr>leads :=
                       map (\<lambda>l. if lead_id l = leadId
                                 then assign_locally k newAssignedUserId l else l) (leads k),
                     selectedLead :=
                       (case selectedLead k of
                          None \<Rightarrow> None
                        | Some sel \<Rightarrow>
                            if lead_id sel = leadId
                            then Some (assign_locally k newAssignedUserId sel)
                            else Some sel)\<rparr>
           in case user k of
                None \<Rightarrow> (k1\<lparr>isUpdatingAssignment := False\<rparr>, d1)
              | Some uid \<Rightarrow>
                  (let assignedMember =
                         (if newAssignedUserId \<noteq> []
                          then find (\<lambda>member. profile_id member = newAssignedUserId)
                                 (teamMembers k)
                          else None);
                       description =
                         (case assignedMember of
                            Some member \<Rightarrow> ''Lead tilldelad till '' @ full_name member
                          | None \<Rightarrow> ''Lead-tilldelning borttagen'')
                   in case createLeadActivity e leadId uid ''assignment_change'' description d1 of
                        (Rejected m, d2) \<Rightarrow>
                          (k1\<lparr>console := console k1 @ [''Error updating lead assignment:''],
                              toasts := toasts k1
                                @ [ShowError ''Tilldelningsfel''
                                     ''Kunde inte uppdatera tilldelning.''],
                              isUpdatingAssignment := False\<rparr>, d2)
                      | (Resolved r2, d2) \<Rightarrow>
                          (k1\<lparr>toasts := toasts k1
                                @ [Success ''Tilldelning uppdaterad''
                                     (''Lead tilldelad till ''
                                        @ (case assignedMember of
                                             Some member \<Rightarrow>
                                               if full_name member \<noteq> [] then full_name member
                                               else ''ingen''
                                           | None \<Rightarrow> ''ingen''))],
                              isUpdatingAssignment := False\<rparr>, d2))))"

definition handleConvertToQuote :: "lead_env \<Rightarrow> kanban \<Rightarrow> lead_db \<Rightarrow> kanban \<times> lead_db" where
  "handleConvertToQuote e k d =
     (case (selectedLead k, user k) of
        (Some sel, Some uid) \<Rightarrow>
          (let failed = (\<lambda>d'. (k\<lparr>console := console k @ [''Error converting to quote:''],
                                  toasts := toasts k
                                    @ [ShowError ''Konverteringsfel''
                                         ''Kunde inte konvertera lead till offert.'']\<rparr>, d'));
               done = (\<lambda>k'. k'\<lparr>toasts := toasts k'
                                 @ [Success ''Lead konverterad''
                                      ''Lead har konverterats till offert'']\<rparr>)
           in case createLeadActivity e (lead_id sel) uid ''converted_to_quote''
                     ''Lead konverterad till offert'' d of
                (Rejected m, d1) \<Rightarrow> failed d1
              | (Resolved r, d1) \<Rightarrow>
                  if lead_status sel \<noteq> ''qualified'' then
                    (case updateLead e (lead_id sel)
                            \<lparr>lead_patch_status = Some ''qualified'',
                             lead_patch_assigned_to_user_id = None\<rparr> d1 of
                       (Rejected m, d2) \<Rightarrow> failed d2
                     | (Resolved r2, d2) \<Rightarrow>
                         (done (k\<lparr>leads :=
                                    map (\<lambda>l. if lead_id l = lead_id sel
                                              then l\<lparr>lead_status := ''qualified''\<rparr> else l)
                                      (leads k),
                                  selectedLead := Some (sel\<lparr>lead_status := ''qualified''\<rparr>)\<rparr>),
                          d2))
                  else (done k, d1))
      | _ \<Rightarrow> (k, d))"

text \<open>\<open>String.prototype.trim\<close> on code units below 256.\<close>

definition is_space :: "char \<Rightarrow> bool" where
  "is_space c = (c \<in> set [CHR 0x09, CHR 0x0A, CHR 0x0B, CHR 0x0C, CHR 0x0D, CHR 0x20, CHR 0xA0])"

definition trim :: "string \<Rightarrow> string" where
  "trim t = rev (dropWhile is_space (rev (dropWhile is_space t)))"

definition handleAddNote :: "lead_env \<Rightarrow> kanban \<Rightarrow> lead_db \<Rightarrow> kanban \<times> lead_db" where
  "handleAddNote e k d =
     (if trim (newNote k) = [] then (k, d)
      else case (selectedLead k, user k) of
        (Some sel, Some uid) \<Rightarrow>
          (let failed = (\<lambda>k' d'. (k'\<lparr>console := console k' @ [''Error adding note:''],
                                     toasts := toasts k'
                                       @ [ShowError ''Anteckningsfel''
                                            (''Kunde inte l'' @ a_uml @ ''gga till anteckning.'')],
                                     isAddingNote := False\<rparr>, d'))
           in case createLeadNote e (lead_id sel) uid (trim (newNote k)) d of
                (Rejected m, d1) \<Rightarrow> failed k d1
              | (Resolved (Inl (Error m)), d1) \<Rightarrow>
                  (k\<lparr>toasts := toasts k @ [ShowError ''Anteckningsfel'' m],
                     isAddingNote := False\<rparr>, d1)
              | (Resolved (Inr n), d1) \<Rightarrow>
                  (let k1 = k\<lparr>leadNotes := n # leadNotes k, newNote := []\<rparr>
                   in case createLeadActivity e (lead_id sel) uid ''note_added''
                             ''Anteckning tillagd'' d1 of
                        (Rejected m, d2) \<Rightarrow> failed k1 d2
                      | (Resolved r, d2) \<Rightarrow>
                          (k1\<lparr>toasts := toasts k1
                                @ [Success ''Anteckning tillagd'' ''Anteckning har sparats''],
                              isAddingNote := False\<rparr>, d2)))
      | _ \<Rightarrow> (k, d))"

section \<open>Time tracking\<close>

record time_log =
  time_log_id :: string
  time_log_user_id :: string
  time_log_order_id :: string
  time_log_work_type :: "string option"
  time_log_start :: nat
  time_log_end :: "nat option"
  time_log_location :: "(real \<times> real) option"
  time_log_weather :: "string option"

datatype tracking_error = NotFound | SessionAlreadyActive | AlreadyStopped

text \<open>
  Modelled from the spec: \<open>getActiveTimeLog\<close> of \<open>../lib/timeLogs\<close> is not among the
  sources. It is \<open>getActive(workerId)\<close>: the worker's session whose end is null, if any.
\<close>

definition getActiveTimeLog :: "time_log list \<Rightarrow> string \<Rightarrow> time_log option" where
  "getActiveTimeLog logs workerId =
     find (\<lambda>l. time_log_user_id l = workerId \<and> time_log_end l = None) logs"

text \<open>
  Modelled from the spec: \<open>startTimeTracking\<close> of \<open>../lib/timeLogs\<close> is not among the
  sources. It is \<open>start\<close>: it first calls \<open>getActive\<close> and fails with
  \<open>SessionAlreadyActive\<close> when the worker has an active session, without closing it;
  otherwise it inserts a session with the snapshot the caller supplies. The store gives
  the identifier \<open>newId\<close> and the time \<open>now\<close>.
\<close>

definition startTimeTracking ::
  "string \<Rightarrow> nat \<Rightarrow> string \<Rightarrow> string \<Rightarrow> string option \<Rightarrow> (real \<times> real) option \<Rightarrow> string option
     \<Rightarrow> time_log list \<Rightarrow> (tracking_error + time_log) \<times> time_log list" where
  "startTimeTracking newId now orderId workerId workType location weather logs =
     (case getActiveTimeLog logs workerId of
        Some active \<Rightarrow> (Inl SessionAlreadyActive, logs)
      | None \<Rightarrow>
          (let l = \<lparr>time_log_id = newId, time_log_user_id = workerId,
                     time_log_order_id = orderId, time_log_work_type = workType,
                     time_log_start = now, time_log_end = None,
                     time_log_location = location, time_log_weather = weather\<rparr>
           in (Inr l, logs @ [l])))"

fun set_end :: "string \<Rightarrow> nat \<Rightarrow> time_log list \<Rightarrow> time_log list" where
  "set_end i now [] = []"
| "set_end i now (l # ls) =
     (if time_log_id l = i then l\<lparr>time_log_end := Some now\<rparr> # ls else l # set_end i now ls)"

text \<open>
  Modelled from the spec: \<open>stopTimeTracking\<close> of \<open>../lib/timeLogs\<close> is not among the
  sources. It is \<open>stop\<close>: the session must exist and have a null end, which is set to
  the current time; otherwise \<open>NotFound\<close> or \<open>AlreadyStopped\<close>.
\<close>

definition stopTimeTracking ::
  "nat \<Rightarrow> string \<Rightarrow> time_log list \<Rightarrow> (tracking_error + time_log) \<times> time_log list" where
  "stopTimeTracking now timeLogId logs =
     (case find (\<lambda>l. time_log_id l = timeLogId) logs of
        None \<Rightarrow> (Inl NotFound, logs)
      | Some l \<Rightarrow>
          if time_log_end l \<noteq> None then (Inl AlreadyStopped, logs)
          else (Inr (l\<lparr>time_log_end := Some now\<rparr>), set_end timeLogId now logs))"

text \<open>The invariant of the sessions: no worker has two sessions whose end is null.\<close>

definition single_active :: "time_log list \<Rightarrow> bool" where
  "single_active logs =
     distinct (map time_log_user_id (filter (\<lambda>l. time_log_end l = None) logs))"

text \<open>Any sequence of start and stop actions, from the empty table.\<close>

datatype tracking_action =
    StartAction string nat string string "string option" "(real \<times> real) option" "string option"
  | StopAction nat string

fun perform :: "time_log list \<Rightarrow> tracking_action \<Rightarrow> time_log list" where
  "perform logs (StartAction newId now orderId workerId workType location weather) =
     snd (startTimeTracking newId now orderId workerId workType location weather logs)"
| "perform logs (StopAction now timeLogId) = snd (stopTimeTracking now timeLogId logs)"

definition sessions_after :: "tracking_action list \<Rightarrow> time_log list" where
  "sessions_after actions = foldl perform [] actions"

subsection \<open>The worker's schedule page\<close>

datatype schedule_toast = TrackingError string "string option" | TrackingSuccess string

text \<open>
  What the page gets from its collaborators when tracking starts: the location (or a
  rejected promise), the weather sample as text, the store's identifier and time, and the
  message of an error object.
\<close>

record tracking_env =
  current_location :: "(real \<times> real) option awaited"
  weather_temperature :: string
  weather_condition :: string
  new_time_log_id :: string
  current_time :: nat
  error_message :: "tracking_error \<Rightarrow> string"

record schedule =
  schedule_user :: "string option"
  activeTimeLog :: "time_log option"
  schedule_toasts :: "schedule_toast list"

definition start_failed :: "schedule \<Rightarrow> schedule" where
  "start_failed ui =
     ui\<lparr>schedule_toasts := schedule_toasts ui
          @ [TrackingError (''Ett fel intr'' @ a_uml @ ''ffade vid start av tidtagning'') None]\<rparr>"

definition handleStartTracking ::
  "tracking_env \<Rightarrow> string \<Rightarrow> string option \<Rightarrow> schedule \<Rightarrow> time_log list
     \<Rightarrow> schedule \<times> time_log list" where
  "handleStartTracking e orderId workType ui logs =
     (case current_location e of
        Rejected m \<Rightarrow> (start_failed ui, logs)
      | Resolved location \<Rightarrow>
          (case schedule_user ui of
             None \<Rightarrow> (start_failed ui, logs)
           | Some uid \<Rightarrow>
               (case startTimeTracking (new_time_log_id e) (current_time e) orderId uid workType
                       location
                       (Some (weather_temperature e @ [CHR 0xB0] @ ''C, '' @ weather_condition e))
                       logs of
                  (Inl err, logs1) \<Rightarrow>
                    (ui\<lparr>schedule_toasts := schedule_toasts ui
                          @ [TrackingError ''Kunde inte starta tidtagning''
                               (Some (error_message e err))]\<rparr>, logs1)
                | (Inr l, logs1) \<Rightarrow>
                    (ui\<lparr>activeTimeLog := Some l,
                        schedule_toasts := schedule_toasts ui
                          @ [TrackingSuccess ''Tidtagning startad!'']\<rparr>, logs1))))"

definition handleStopTracking ::
  "tracking_env \<Rightarrow> schedule \<Rightarrow> time_log list \<Rightarrow> schedule \<times> time_log list" where
  "handleStopTracking e ui logs =
     (case activeTimeLog ui of
        None \<Rightarrow> (ui, logs)
      | Some active \<Rightarrow>
          (case stopTimeTracking (current_time e) (time_log_id active) logs of
             (Inl err, logs1) \<Rightarrow>
               (ui\<lparr>schedule_toasts := schedule_toasts ui
                     @ [TrackingError ''Kunde inte stoppa tidtagning''
                          (Some (error_message e err))]\<rparr>, logs1)
           | (Inr l, logs1) \<Rightarrow>
               (ui\<lparr>activeTimeLog := None,
                   schedule_toasts := schedule_toasts ui
                     @ [TrackingSuccess ''Tidtagning stoppad!'']\<rparr>, logs1)))"

text \<open>
  What the page renders beside an event of the selected day: nothing for a past event,
  the stop button when \<open>activeTimeLog?.order_id === event.related_order_id\<close>, the start
  button when no session is known, and otherwise the notice that another tracking is
  running. Both sides of the comparison may be \<open>undefined\<close>: the left one when no
  session is known, the right one when the event has no such property. For
  \<open>related_order_id\<close>, \<open>None\<close> is \<open>undefined\<close> and \<open>Some None\<close> is null.
\<close>

datatype tracking_control = NoControl | StopButton | StartButton | OtherTrackingNotice

definition tracking_control ::
  "schedule \<Rightarrow> bool \<Rightarrow> string option option \<Rightarrow> tracking_control" where
  "tracking_control ui isPast related_order_id =
     (let isActiveTracking =
            ((case activeTimeLog ui of
                None \<Rightarrow> None
              | Some active \<Rightarrow> Some (Some (time_log_order_id active))) = related_order_id)
      in if isPast then NoControl
         else if isActiveTracking then StopButton
         else if activeTimeLog ui = None then StartButton
         else OtherTrackingNotice)"

section \<open>Requests, vocabularies and the order of effects\<close>

text \<open>The three requests that callers make through \<open>updateOrder\<close>.\<close>

definition status_update :: "string \<Rightarrow> order_patch" where
  "status_update newStatus =
     \<lparr>patch_title = None, patch_status = Some newStatus, patch_value = None,
      patch_assigned_to_user_id = None, patch_assigned_to_team_id = None\<rparr>"

definition assignee_update :: "string option \<Rightarrow> order_patch" where
  "assignee_update newUser =
     \<lparr>patch_title = None, patch_status = None, patch_value = None,
      patch_assigned_to_user_id = Some newUser, patch_assigned_to_team_id = None\<rparr>"

definition team_update :: "string option \<Rightarrow> order_patch" where
  "team_update newTeam =
     \<lparr>patch_title = None, patch_status = None, patch_value = None,
      patch_assigned_to_user_id = None, patch_assigned_to_team_id = Some newTeam\<rparr>"

text \<open>The activity kinds of the data model, as the specification lists them.\<close>

definition activity_kinds :: "string list" where
  "activity_kinds =
     [''created'', ''status_changed'', ''assigned'', ''team_assigned'', ''note_added'',
      ''converted'', ''custom'']"

text \<open>The kinds that the order module writes, and the kinds that the lead board writes.\<close>

definition order_activity_kinds :: "string list" where
  "order_activity_kinds =
     [''created'', ''status_changed'', ''assigned'', ''team_assigned'', ''note_added'']"

definition lead_activity_kinds :: "string list" where
  "lead_activity_kinds =
     [''status_change'', ''assignment_change'', ''note_added'', ''converted_to_quote'']"





section \<open>A small organisation, for the examples\<close>

definition roof_order :: order where
  "roof_order =
     \<lparr>order_organisation_id = ''org1'', order_title = ''Takbyte'', order_status = ''new'',
      order_value = Some 1000, order_assigned_to_user_id = Some ''u2'',
      order_assigned_to_team_id = None\<rparr>"

definition floor_order :: order where
  "floor_order =
     \<lparr>order_organisation_id = ''org1'', order_title = ''Golv'', order_status = ''new'',
      order_value = None, order_assigned_to_user_id = None,
      order_assigned_to_team_id = None\<rparr>"

definition fitters :: team where
  "fitters = \<lparr>team_name = ''Montage'', team_members = [''u1'', ''u2'', ''u3'']\<rparr>"

definition small_store :: store where
  "small_store =
     \<lparr>orders = [(''O1'', roof_order)], teams = [(''T1'', fitters)], order_notes = [],
      order_activities = [], notifications = [], journal = []\<rparr>"

definition obliging :: env where
  "obliging =
     \<lparr>ORDER_STATUS_LABELS = map_of [(''new'', ''Ny''), (''contacted'', ''Kontaktad'')],
      select_reply = Succeeds, update_reply = Succeeds, insert_order_reply = Succeeds,
      insert_note_reply = Succeeds, generated_id = ''O2'', no_rows_message = ''no rows'',
      activity_reply = (\<lambda>a. Succeeds), notification_reply = (\<lambda>n. Succeeds)\<rparr>"

text \<open>The same store client with an activity table that refuses every insert.\<close>

definition refusing_audit :: env where
  "refusing_audit = obliging\<lparr>activity_reply := (\<lambda>a. Fails ''audit insert refused'')\<rparr>"

text \<open>The same store client with a notification module whose promise rejects.\<close>

definition unreachable_sink :: env where
  "unreachable_sink = obliging\<lparr>notification_reply := (\<lambda>n. Throws ''sink unreachable'')\<rparr>"

definition ny_kontaktad :: order_activity where
  "ny_kontaktad =
     \<lparr>activity_order_id = ''O1'', activity_user_id = None, activity_type = ''status_changed'',
      activity_description =
        ''Status '' @ a_uml @ ''ndrad fr'' @ a_ring @ ''n Ny till Kontaktad'',
      activity_old_value = Some ''new'', activity_new_value = Some ''contacted''\<rparr>"

definition roof_lead :: lead where
  "roof_lead =
     \<lparr>lead_id = ''L1'', lead_title = ''Takbyte'', lead_status = ''new'',
      lead_assigned_to_user_id = None, lead_assigned_to = None\<rparr>"

definition small_lead_db :: lead_db where
  "small_lead_db = \<lparr>lead_rows = [roof_lead], lead_activities = [], lead_notes = []\<rparr>"

definition obliging_lead_store :: lead_env where
  "obliging_lead_store =
     \<lparr>update_lead_reply = Succeeds, lead_activity_reply = (\<lambda>a. Succeeds),
      lead_note_reply = Succeeds, lead_no_rows_message = ''no rows''\<rparr>"

definition board :: kanban where
  "board =
     \<lparr>user = Some ''u1'', leads = [roof_lead],
      teamMembers = [\<lparr>profile_id = ''u2'', full_name = ''Sara''\<rparr>],
      selectedLead = Some roof_lead, draggedLead = Some roof_lead,
      isUpdatingAssignment = False, newNote = [], isAddingNote = False, leadNotes = [],
      toasts = [], console = []\<rparr>"

definition first_session :: time_log where
  "first_session =
     \<lparr>time_log_id = ''S1'', time_log_user_id = ''w1'', time_log_order_id = ''O1'',
      time_log_work_type = None, time_log_start = 10, time_log_end = None,
      time_log_location = None, time_log_weather = None\<rparr>"

section \<open>Statistics never divide by zero\<close>

lemma foldl_or_zero:
  "foldl (\<lambda>sum ord. sum + or_zero (order_value ord)) a os
     = a + (\<Sum>ord\<leftarrow>os. or_zero (order_value ord))"
  by (induction os arbitrary: a) simp_all

text \<open>
  C10. When the query succeeds, \<open>getOrderStats\<close> returns statistics for every list of
  rows: \<open>totalOrders\<close> is the number of rows, \<open>totalValue\<close> the sum of their values with
  null counted as 0, and \<open>averageValue\<close> is \<open>totalValue / totalOrders\<close> when there is a
  row and 0 when there is none. With numbers read as exact reals it is a number in both
  cases: the division by zero, which would give \<open>NaN\<close> here, is never made.
\<close>

theorem getOrderStats_averageValue:
  "\<exists>st. getOrderStats Succeeds fetched s = (Inr st, s)
     \<and> totalOrders st = length (case fetched of None \<Rightarrow> [] | Some rows \<Rightarrow> rows)
     \<and> totalValue st =
         (\<Sum>ord\<leftarrow>(case fetched of None \<Rightarrow> [] | Some rows \<Rightarrow> rows). or_zero (order_value ord))
     \<and> averageValue st =
         (if 0 < totalOrders st then Num (totalValue st / real (totalOrders st)) else Num 0)
     \<and> averageValue st \<noteq> NaN \<and> averageValue st \<noteq> Infinity
     \<and> averageValue st \<noteq> NegInfinity"
  by (simp add: getOrderStats_def Let_def foldl_or_zero divide_number_def)

theorem getOrderStats_averageValue_witness:
  "\<exists>st. getOrderStats Succeeds (Some [roof_order, floor_order]) small_store = (Inr st, small_store)
     \<and> totalOrders st = 2 \<and> totalValue st = 1000 \<and> averageValue st = Num 500"
proof -
  obtain st where st:
    "getOrderStats Succeeds (Some [roof_order, floor_order]) small_store = (Inr st, small_store)"
    "totalOrders st = length [roof_order, floor_order]"
    "totalValue st = (\<Sum>ord\<leftarrow>[roof_order, floor_order]. or_zero (order_value ord))"
    "averageValue st =
       (if 0 < totalOrders st then Num (totalValue st / real (totalOrders st)) else Num 0)"
    using getOrderStats_averageValue [of "Some [roof_order, floor_order]" small_store]
    by auto
  have "totalOrders st = 2" and "totalValue st = 1000"
    using st(2,3) by (simp_all add: roof_order_def floor_order_def)
  then have "averageValue st = Num 500"
    using st(4) by simp
  then show ?thesis
    using st(1) \<open>totalOrders st = 2\<close> \<open>totalValue st = 1000\<close> by blast
qed

section \<open>Creating an order and its first activity\<close>

text \<open>
  C9, as the code has it. \<open>createOrder\<close> does not look at what \<open>createOrderActivity\<close>
  returns. When the store accepts the new order, the creation succeeds with the new row
  in either case: if the store accepts the insert into the activity table, exactly one
  activity is appended, for the new order, of kind \<open>created\<close>, described as
  \<open>Order skapad\<close> and with a null acting user; if the store refuses that insert, no
  activity is appended.
\<close>

theorem createOrder_activity_if_accepted:
  assumes "insert_order_reply e = Succeeds"
  shows "fst (createOrder e ord s) = Inr (generated_id e, ord)
     \<and> order_activities (snd (createOrder e ord s)) =
         order_activities s
           @ (if activity_reply e
                   \<lparr>activity_order_id = generated_id e, activity_user_id = None,
                    activity_type = ''created'', activity_description = ''Order skapad'',
                    activity_old_value = None, activity_new_value = None\<rparr> = Succeeds
              then [\<lparr>activity_order_id = generated_id e, activity_user_id = None,
                     activity_type = ''created'', activity_description = ''Order skapad'',
                     activity_old_value = None, activity_new_value = None\<rparr>]
              else [])"
  using assms
  by (simp add: createOrder_def createOrderActivity_def log_error_def Let_def
      split: outcome.split)

theorem createOrder_activity_if_accepted_witness:
  "fst (createOrder obliging floor_order small_store) = Inr (''O2'', floor_order)
   \<and> order_activities (snd (createOrder obliging floor_order small_store)) =
       [\<lparr>activity_order_id = ''O2'', activity_user_id = None,
         activity_type = ''created'', activity_description = ''Order skapad'',
         activity_old_value = None, activity_new_value = None\<rparr>]
   \<and> fst (createOrder refusing_audit floor_order small_store) = Inr (''O2'', floor_order)
   \<and> order_activities (snd (createOrder refusing_audit floor_order small_store)) = []"
  using createOrder_activity_if_accepted [of obliging floor_order small_store]
    createOrder_activity_if_accepted [of refusing_audit floor_order small_store]
  by (simp add: refusing_audit_def obliging_def small_store_def)

text \<open>
  C9, as stated for every successful creation, fails: with an activity table that
  refuses the insert, \<open>createOrder\<close> returns the new order without an error and the
  order is in the table, yet no activity has been appended for it.
\<close>

theorem creation_without_activity:
  "fst (createOrder refusing_audit floor_order small_store) = Inr (''O2'', floor_order)
   \<and> map_of (orders (snd (createOrder refusing_audit floor_order small_store))) ''O2''
       = Some floor_order
   \<and> order_activities (snd (createOrder refusing_audit floor_order small_store)) = []
   \<and> journal (snd (createOrder refusing_audit floor_order small_store))
       = [OrderInserted ''O2'']"
  by (simp add: createOrder_def createOrderActivity_def Let_def refusing_audit_def
      obliging_def small_store_def)

section \<open>A status request through \<open>updateOrder\<close>\<close>

lemma apply_patch_status_update:
  "apply_patch (status_update ns) ord = ord\<lparr>order_status := ns\<rparr>"
  by (simp add: apply_patch_def status_update_def)

lemma assign_step_status_update:
  "assign_step e i (status_update ns) cur dat s = (None, s)"
  by (simp add: assign_step_def status_update_def)

lemma team_step_status_update:
  "team_step e i (status_update ns) cur dat s = (None, s)"
  by (simp add: team_step_def status_update_def)

text \<open>
  When the store answers the read and accepts the write, a status request returns the
  row with the requested status, whatever the notification module and the activity table
  do afterwards.
\<close>

lemma updateOrder_status_update:
  assumes "select_reply e = Succeeds" and "update_reply e = Succeeds"
    and "map_of (orders s) i = Some cur"
  shows "updateOrder e i (status_update ns) s =
           (Inr (i, cur\<lparr>order_status := ns\<rparr>),
            status_step e i (status_update ns) cur (cur\<lparr>order_status := ns\<rparr>)
              (s\<lparr>orders := AList.update i (cur\<lparr>order_status := ns\<rparr>) (orders s),
                 journal := journal s @ [OrderWritten i]\<rparr>))"
  using assms
  by (simp add: updateOrder_def Let_def apply_patch_status_update
      assign_step_status_update team_step_status_update)

lemma status_step_same:
  "status_step e i (status_update (order_status cur)) cur dat s = s"
  by (simp add: status_step_def status_update_def)

lemma status_step_changed:
  assumes "ns \<noteq> []" and "ns \<noteq> order_status cur"
  shows "status_step e i (status_update ns) cur dat s =
           snd (createOrderActivity e i None ''status_changed''
                  (status_description e (order_status cur) ns)
                  (Some (order_status cur)) (Some ns)
                  (case order_assigned_to_user_id dat of
                     None \<Rightarrow> s
                   | Some u \<Rightarrow>
                       if u \<noteq> [] then
                         createStatusChangeNotification e u i (order_title dat)
                           (order_status cur) ns s
                       else s))"
  using assms by (simp add: status_step_def status_update_def Let_def)

lemma createOrderActivity_accepted:
  assumes "activity_reply e \<lparr>activity_order_id = i, activity_user_id = u,
             activity_type = k, activity_description = d,
             activity_old_value = ov, activity_new_value = nv\<rparr> = Succeeds"
  shows "snd (createOrderActivity e i u k d ov nv s) =
           s\<lparr>order_activities := order_activities s
                @ [\<lparr>activity_order_id = i, activity_user_id = u,
                    activity_type = k, activity_description = d,
                    activity_old_value = ov, activity_new_value = nv\<rparr>],
             journal := journal s
                @ [ActivityAppended \<lparr>activity_order_id = i, activity_user_id = u,
                    activity_type = k, activity_description = d,
                    activity_old_value = ov, activity_new_value = nv\<rparr>]\<rparr>"
  using assms by (simp add: createOrderActivity_def Let_def)


text \<open>What the notification helper leaves alone, whatever the module replies.\<close>

lemma createStatusChangeNotification_tables:
  "orders (createStatusChangeNotification e u i t old ns s) = orders s"
  "order_activities (createStatusChangeNotification e u i t old ns s) = order_activities s"
  by (simp_all add: createStatusChangeNotification_def createNotification_def log_error_def
      split: outcome.split)

section \<open>Requesting the current status\<close>

text \<open>
  C3. A request for the status that the order already has succeeds and changes nothing:
  when the store answers, \<open>updateOrder\<close> returns the row as it was, and the store differs
  only in the journal entry of the write, so that no activity is appended and no
  notification is enqueued. On the lead board, dropping a lead on its own column ends
  the drag without calling the store at all.
\<close>

theorem same_status_is_noop:
  assumes "select_reply e = Succeeds" and "update_reply e = Succeeds"
    and "map_of (orders s) i = Some cur"
    and "draggedLead k = Some l" and "lead_status l = st"
  shows "updateOrder e i (status_update (order_status cur)) s =
           (Inr (i, cur), s\<lparr>journal := journal s @ [OrderWritten i]\<rparr>)
       \<and> handleDrop le st k d = (k\<lparr>draggedLead := None\<rparr>, d)"
proof -
  have "AList.update i cur (orders s) = orders s"
    using assms(3) by (rule AList.update_triv)
  then have "updateOrder e i (status_update (order_status cur)) s =
           (Inr (i, cur), s\<lparr>journal := journal s @ [OrderWritten i]\<rparr>)"
    using assms(1-3) by (simp add: updateOrder_status_update status_step_same)
  moreover have "handleDrop le st k d = (k\<lparr>draggedLead := None\<rparr>, d)"
    using assms(4,5) by (simp add: handleDrop_def)
  ultimately show ?thesis by simp
qed

theorem same_status_is_noop_witness:
  "updateOrder obliging ''O1'' (status_update ''new'') small_store =
     (Inr (''O1'', roof_order), small_store\<lparr>journal := [OrderWritten ''O1'']\<rparr>)
   \<and> order_activities (snd (updateOrder obliging ''O1'' (status_update ''new'') small_store)) = []
   \<and> notifications (snd (updateOrder obliging ''O1'' (status_update ''new'') small_store)) = []
   \<and> handleDrop obliging_lead_store ''new'' board small_lead_db =
       (board\<lparr>draggedLead := None\<rparr>, small_lead_db)"
  using same_status_is_noop [where e = obliging and s = small_store and i = "''O1''"
      and cur = roof_order and k = board and l = roof_lead and st = "''new''"
      and le = obliging_lead_store and d = small_lead_db]
  by (simp add: obliging_def small_store_def roof_order_def board_def roof_lead_def)

section \<open>The order of the side effects of a status change\<close>




section \<open>A requested status is not checked against the enum\<close>

text \<open>
  C4, as the code has it. \<open>updateOrder\<close> has no check of the requested status and no
  \<open>InvalidStatus\<close> error: whether a status request for an existing order fails is
  decided by the store alone. When the store rejects the write, or the call of the write
  raises, the operation fails with that message and the tables are unchanged, so that
  there is no status change, no activity and no notification; when the store accepts
  the write, the operation returns the row with the requested status, whatever that
  status is.
\<close>

theorem status_request_decided_by_store:
  assumes "select_reply e = Succeeds" and "map_of (orders s) i = Some cur"
  shows "(update_reply e = Fails m \<longrightarrow>
            updateOrder e i (status_update ns) s = (Inl (Error m), s))
       \<and> (update_reply e = Throws m \<longrightarrow>
            updateOrder e i (status_update ns) s =
              (Inl (Error m), s\<lparr>journal := journal s @ [ConsoleError ''Error updating order:'']\<rparr>))
       \<and> (update_reply e = Succeeds \<longrightarrow>
            fst (updateOrder e i (status_update ns) s) = Inr (i, cur\<lparr>order_status := ns\<rparr>))"
proof (intro conjI impI)
  assume "update_reply e = Fails m"
  then show "updateOrder e i (status_update ns) s = (Inl (Error m), s)"
    using assms by (simp add: updateOrder_def)
next
  assume "update_reply e = Throws m"
  then show "updateOrder e i (status_update ns) s =
      (Inl (Error m), s\<lparr>journal := journal s @ [ConsoleError ''Error updating order:'']\<rparr>)"
    using assms by (simp add: updateOrder_def updateOrder_catch_def log_error_def)
next
  assume "update_reply e = Succeeds"
  then show "fst (updateOrder e i (status_update ns) s) = Inr (i, cur\<lparr>order_status := ns\<rparr>)"
    using assms by (simp add: updateOrder_status_update)
qed

theorem status_request_decided_by_store_witness:
  "updateOrder (obliging\<lparr>update_reply := Fails ''invalid input value for enum''\<rparr>) ''O1''
       (status_update ''bogus'') small_store
     = (Inl (Error ''invalid input value for enum''), small_store)
   \<and> fst (updateOrder obliging ''O1'' (status_update ''bogus'') small_store)
       = Inr (''O1'', roof_order\<lparr>order_status := ''bogus''\<rparr>)"
  using status_request_decided_by_store
      [where e = "obliging\<lparr>update_reply := Fails ''invalid input value for enum''\<rparr>"
         and s = small_store and i = "''O1''" and cur = roof_order
         and m = "''invalid input value for enum''" and ns = "''bogus''"]
    status_request_decided_by_store
      [where e = obliging and s = small_store and i = "''O1''" and cur = roof_order
         and ns = "''bogus''"]
  by (simp add: obliging_def small_store_def)

text \<open>
  C4, as the specification states it, fails: \<open>bogus\<close> has no entry in the label table of
  the example, yet the request succeeds, the order has status \<open>bogus\<close> afterwards, a
  \<open>status_changed\<close> activity is appended and the assigned user is notified.
\<close>

theorem unknown_status_is_written:
  "ORDER_STATUS_LABELS obliging ''bogus'' = None
   \<and> fst (updateOrder obliging ''O1'' (status_update ''bogus'') small_store)
       = Inr (''O1'', roof_order\<lparr>order_status := ''bogus''\<rparr>)
   \<and> map_of (orders (snd (updateOrder obliging ''O1'' (status_update ''bogus'') small_store))) ''O1''
       = Some (roof_order\<lparr>order_status := ''bogus''\<rparr>)
   \<and> order_activities (snd (updateOrder obliging ''O1'' (status_update ''bogus'') small_store))
       = [\<lparr>activity_order_id = ''O1'', activity_user_id = None,
           activity_type = ''status_changed'',
           activity_description =
             ''Status '' @ a_uml @ ''ndrad fr'' @ a_ring @ ''n Ny till undefined'',
           activity_old_value = Some ''new'', activity_new_value = Some ''bogus''\<rparr>]
   \<and> notifications (snd (updateOrder obliging ''O1'' (status_update ''bogus'') small_store))
       = [StatusUpdateNotification ''u2'' ''Takbyte'' (Some ''Ny'') None
            ''/ordrar?highlight=O1'']"
  by (simp add: updateOrder_def Let_def obliging_def small_store_def roof_order_def
      status_update_def apply_patch_def status_step_def assign_step_def team_step_def
      createStatusChangeNotification_def createNotification_def createOrderActivity_def
      status_description_def)

section \<open>The activity of a status change\<close>

lemma createLeadActivity_accepted:
  assumes "lead_activity_reply e
             \<lparr>lead_activity_lead_id = i, lead_activity_user_id = Some u,
              lead_activity_type = k, lead_activity_description = descr,
              lead_activity_old_value = None, lead_activity_new_value = None\<rparr> = Succeeds"
  shows "createLeadActivity e i u k descr d =
           (Resolved (Inr \<lparr>lead_activity_lead_id = i, lead_activity_user_id = Some u,
                            lead_activity_type = k, lead_activity_description = descr,
                            lead_activity_old_value = None, lead_activity_new_value = None\<rparr>),
            d\<lparr>lead_activities := lead_activities d
                 @ [\<lparr>lead_activity_lead_id = i, lead_activity_user_id = Some u,
                     lead_activity_type = k, lead_activity_description = descr,
                     lead_activity_old_value = None, lead_activity_new_value = None\<rparr>]\<rparr>)"
  using assms by (simp add: createLeadActivity_def Let_def)

text \<open>
  C7, as the code has it. For an order, a status request that changes the status, with
  the store answering and accepting the write and the activity, returns the row with
  the new status, which a read of the table then finds, and appends exactly one
  activity: of kind \<open>status_changed\<close>, with the old and the new status as its values and
  the description rendered from \<open>ORDER_STATUS_LABELS\<close>. For a lead, \<open>handleStatusChange\<close>
  of the board appends exactly one activity when a user is signed in and the store
  accepts it: of kind \<open>status_change\<close>, by that user, with the description rendered from
  the board's own label table and without old or new value.
\<close>

theorem status_change_is_audited:
  assumes "select_reply e = Succeeds" and "update_reply e = Succeeds"
    and "map_of (orders s) i = Some cur"
    and "ns \<noteq> []" and "ns \<noteq> order_status cur"
    and "activity_reply e
           \<lparr>activity_order_id = i, activity_user_id = None,
            activity_type = ''status_changed'',
            activity_description =
              ''Status '' @ a_uml @ ''ndrad fr'' @ a_ring @ ''n ''
                @ interpolate (ORDER_STATUS_LABELS e (order_status cur))
                @ '' till '' @ interpolate (ORDER_STATUS_LABELS e ns),
            activity_old_value = Some (order_status cur),
            activity_new_value = Some ns\<rparr> = Succeeds"
    and "user k = Some uid"
    and "lead_activity_reply le
           \<lparr>lead_activity_lead_id = leadId, lead_activity_user_id = Some uid,
            lead_activity_type = ''status_change'',
            lead_activity_description =
              ''Status '' @ a_uml @ ''ndrad fr'' @ a_ring @ ''n ''
                @ interpolate (statusLabels oldStatus)
                @ '' till '' @ interpolate (statusLabels newStatus),
            lead_activity_old_value = None, lead_activity_new_value = None\<rparr> = Succeeds"
  shows "fst (updateOrder e i (status_update ns) s) = Inr (i, cur\<lparr>order_status := ns\<rparr>)
       \<and> map_of (orders (snd (updateOrder e i (status_update ns) s))) i
           = Some (cur\<lparr>order_status := ns\<rparr>)
       \<and> order_activities (snd (updateOrder e i (status_update ns) s)) =
           order_activities s
             @ [\<lparr>activity_order_id = i, activity_user_id = None,
                 activity_type = ''status_changed'',
                 activity_description =
                   ''Status '' @ a_uml @ ''ndrad fr'' @ a_ring @ ''n ''
                     @ interpolate (ORDER_STATUS_LABELS e (order_status cur))
                     @ '' till '' @ interpolate (ORDER_STATUS_LABELS e ns),
                 activity_old_value = Some (order_status cur),
                 activity_new_value = Some ns\<rparr>]
       \<and> handleStatusChange le leadId newStatus oldStatus k d =
           (k, d\<lparr>lead_activities := lead_activities d
                   @ [\<lparr>lead_activity_lead_id = leadId, lead_activity_user_id = Some uid,
                       lead_activity_type = ''status_change'',
                       lead_activity_description =
                         ''Status '' @ a_uml @ ''ndrad fr'' @ a_ring @ ''n ''
                           @ interpolate (statusLabels oldStatus)
                           @ '' till '' @ interpolate (statusLabels newStatus),
                       lead_activity_old_value = None,
                       lead_activity_new_value = None\<rparr>]\<rparr>)"
proof -
  let ?s1 = "s\<lparr>orders := AList.update i (cur\<lparr>order_status := ns\<rparr>) (orders s),
               journal := journal s @ [OrderWritten i]\<rparr>"
  let ?s2 = "case order_assigned_to_user_id (cur\<lparr>order_status := ns\<rparr>) of
               None \<Rightarrow> ?s1
             | Some u \<Rightarrow>
                 if u \<noteq> [] then
                   createStatusChangeNotification e u i (order_title (cur\<lparr>order_status := ns\<rparr>))
                     (order_status cur) ns ?s1
                 else ?s1"
  have tables: "orders ?s2 = orders ?s1" "order_activities ?s2 = order_activities ?s1"
    by (simp_all add: createStatusChangeNotification_tables split: option.split)
  have run: "updateOrder e i (status_update ns) s =
               (Inr (i, cur\<lparr>order_status := ns\<rparr>),
                snd (createOrderActivity e i None ''status_changed''
                       (status_description e (order_status cur) ns)
                       (Some (order_status cur)) (Some ns) ?s2))"
    using assms(1-5) by (simp add: updateOrder_status_update status_step_changed)
  have appended: "snd (createOrderActivity e i None ''status_changed''
                       (status_description e (order_status cur) ns)
                       (Some (order_status cur)) (Some ns) ?s2) =
                  ?s2\<lparr>order_activities := order_activities ?s2
                        @ [\<lparr>activity_order_id = i, activity_user_id = None,
                            activity_type = ''status_changed'',
                            activity_description = status_description e (order_status cur) ns,
                            activity_old_value = Some (order_status cur),
                            activity_new_value = Some ns\<rparr>],
                      journal := journal ?s2
                        @ [ActivityAppended \<lparr>activity_order_id = i, activity_user_id = None,
                            activity_type = ''status_changed'',
                            activity_description = status_description e (order_status cur) ns,
                            activity_old_value = Some (order_status cur),
                            activity_new_value = Some ns\<rparr>]\<rparr>"
    using assms(6) by (intro createOrderActivity_accepted) (simp add: status_description_def)
  have order_part:
    "fst (updateOrder e i (status_update ns) s) = Inr (i, cur\<lparr>order_status := ns\<rparr>)"
    "map_of (orders (snd (updateOrder e i (status_update ns) s))) i
       = Some (cur\<lparr>order_status := ns\<rparr>)"
    "order_activities (snd (updateOrder e i (status_update ns) s)) =
       order_activities s
         @ [\<lparr>activity_order_id = i, activity_user_id = None,
             activity_type = ''status_changed'',
             activity_description = status_description e (order_status cur) ns,
             activity_old_value = Some (order_status cur),
             activity_new_value = Some ns\<rparr>]"
    unfolding run appended using tables by (simp_all add: AList.update_conv')
  have lead_part:
    "handleStatusChange le leadId newStatus oldStatus k d =
       (k, d\<lparr>lead_activities := lead_activities d
               @ [\<lparr>lead_activity_lead_id = leadId, lead_activity_user_id = Some uid,
                   lead_activity_type = ''status_change'',
                   lead_activity_description =
                     ''Status '' @ a_uml @ ''ndrad fr'' @ a_ring @ ''n ''
                       @ interpolate (statusLabels oldStatus)
                       @ '' till '' @ interpolate (statusLabels newStatus),
                   lead_activity_old_value = None,
                   lead_activity_new_value = None\<rparr>]\<rparr>)"
    using assms(7,8)
    by (simp add: handleStatusChange_def Let_def createLeadActivity_accepted)
  show ?thesis
    using order_part lead_part unfolding status_description_def by simp
qed

theorem status_change_is_audited_witness:
  "fst (updateOrder obliging ''O1'' (status_update ''contacted'') small_store)
     = Inr (''O1'', roof_order\<lparr>order_status := ''contacted''\<rparr>)
   \<and> map_of (orders (snd (updateOrder obliging ''O1'' (status_update ''contacted'') small_store)))
       ''O1'' = Some (roof_order\<lparr>order_status := ''contacted''\<rparr>)
   \<and> order_activities (snd (updateOrder obliging ''O1'' (status_update ''contacted'') small_store))
       = [ny_kontaktad]
   \<and> handleStatusChange obliging_lead_store ''L1'' ''contacted'' ''new'' board small_lead_db =
       (board,
        small_lead_db\<lparr>lead_activities :=
          [\<lparr>lead_activity_lead_id = ''L1'', lead_activity_user_id = Some ''u1'',
            lead_activity_type = ''status_change'',
            lead_activity_description =
              ''Status '' @ a_uml @ ''ndrad fr'' @ a_ring @ ''n Ny till Kontaktad'',
            lead_activity_old_value = None, lead_activity_new_value = None\<rparr>]\<rparr>)"
  using status_change_is_audited
      [where e = obliging and s = small_store and i = "''O1''" and cur = roof_order
         and ns = "''contacted''" and k = board and uid = "''u1''"
         and le = obliging_lead_store and leadId = "''L1''" and oldStatus = "''new''"
         and newStatus = "''contacted''" and d = small_lead_db]
  by (simp add: obliging_def small_store_def roof_order_def ny_kontaktad_def board_def
      obliging_lead_store_def small_lead_db_def statusLabels_def)

text \<open>
  C7, as the specification states it, fails on the lead board: moving the lead of the
  example from \<open>new\<close> to \<open>contacted\<close> records the description of the specification's
  scenario, but in an activity of kind \<open>status_change\<close>, not \<open>status_changed\<close>, that
  carries neither the old nor the new status as a value.
\<close>

theorem board_records_status_change:
  "lead_activities (snd (handleDrop obliging_lead_store ''contacted'' board small_lead_db)) =
     [\<lparr>lead_activity_lead_id = ''L1'', lead_activity_user_id = Some ''u1'',
       lead_activity_type = ''status_change'',
       lead_activity_description =
         ''Status '' @ a_uml @ ''ndrad fr'' @ a_ring @ ''n Ny till Kontaktad'',
       lead_activity_old_value = None, lead_activity_new_value = None\<rparr>]
   \<and> map lead_activity_type
         (lead_activities (snd (handleDrop obliging_lead_store ''contacted'' board small_lead_db)))
       \<noteq> [''status_changed'']"
  by (simp add: handleDrop_def handleStatusChange_def updateLead_def createLeadActivity_def
      apply_lead_patch_def Let_def obliging_lead_store_def board_def small_lead_db_def
      roof_lead_def statusLabels_def)

section \<open>A notification that fails during an assignment\<close>

text \<open>
  For a status request the notification is sent inside \<open>createStatusChangeNotification\<close>,
  which catches a rejected promise: \<open>updateOrder_status_update\<close> above holds whatever
  the notification module replies. The assignment block awaits \<open>createNotification\<close>
  without such a guard.

  C6, evaluated where it fails. With a notification module whose promise rejects,
  assigning the order of the example to user \<open>u3\<close> writes the new assignee to the store,
  and then \<open>updateOrder\<close> returns the notification's error instead of the updated order;
  the \<open>assigned\<close> activity is not written either.
\<close>

theorem assignment_fails_with_notification:
  "fst (updateOrder unreachable_sink ''O1'' (assignee_update (Some ''u3'')) small_store)
     = Inl (Error ''sink unreachable'')
   \<and> map_of (orders (snd (updateOrder unreachable_sink ''O1'' (assignee_update (Some ''u3''))
                             small_store))) ''O1''
       = Some (roof_order\<lparr>order_assigned_to_user_id := Some ''u3''\<rparr>)
   \<and> order_activities (snd (updateOrder unreachable_sink ''O1'' (assignee_update (Some ''u3''))
                               small_store)) = []
   \<and> journal (snd (updateOrder unreachable_sink ''O1'' (assignee_update (Some ''u3''))
                      small_store))
       = [OrderWritten ''O1'', ConsoleError ''Error updating order:'']"
  by (simp add: updateOrder_def updateOrder_catch_def log_error_def Let_def
      unreachable_sink_def obliging_def small_store_def roof_order_def assignee_update_def
      apply_patch_def status_step_def assign_step_def createNotification_def)

text \<open>The same module does not disturb a status change of the same order.\<close>

lemma status_change_survives_notification:
  "fst (updateOrder unreachable_sink ''O1'' (status_update ''contacted'') small_store)
     = Inr (''O1'', roof_order\<lparr>order_status := ''contacted''\<rparr>)
   \<and> journal (snd (updateOrder unreachable_sink ''O1'' (status_update ''contacted'') small_store))
       = [OrderWritten ''O1'', ConsoleError ''Error creating status change notification:'',
          ActivityAppended ny_kontaktad]"
  by (simp add: updateOrder_def log_error_def Let_def
      unreachable_sink_def obliging_def small_store_def roof_order_def status_update_def
      apply_patch_def status_step_def assign_step_def team_step_def
      createStatusChangeNotification_def createNotification_def createOrderActivity_def
      status_description_def ny_kontaktad_def)

text \<open>
  In general: when the notification of a new assignee rejects, the write has been made
  and \<open>updateOrder\<close> returns the rejection as the error of the operation.
\<close>

lemma apply_patch_assignee_update:
  "apply_patch (assignee_update newUser) ord = ord\<lparr>order_assigned_to_user_id := newUser\<rparr>"
  by (simp add: apply_patch_def assignee_update_def)

lemma status_step_assignee_update:
  "status_step e i (assignee_update newUser) cur dat s = s"
  by (simp add: status_step_def assignee_update_def)

lemma assign_step_rejected:
  assumes "u \<noteq> []" and "Some u \<noteq> order_assigned_to_user_id cur"
    and "notification_reply e (OrderAssignmentNotification u i (order_title dat)) = Throws m"
  shows "assign_step e i (assignee_update (Some u)) cur dat s = (Some m, s)"
  using assms by (simp add: assign_step_def assignee_update_def createNotification_def)

lemma assignment_rejection_surfaces:
  assumes "select_reply e = Succeeds" and "update_reply e = Succeeds"
    and "map_of (orders s) i = Some cur"
    and "u \<noteq> []" and "Some u \<noteq> order_assigned_to_user_id cur"
    and "notification_reply e (OrderAssignmentNotification u i (order_title cur)) = Throws m"
  shows "updateOrder e i (assignee_update (Some u)) s =
           (Inl (Error m),
            s\<lparr>orders := AList.update i (cur\<lparr>order_assigned_to_user_id := Some u\<rparr>) (orders s),
              journal := journal s @ [OrderWritten i, ConsoleError ''Error updating order:'']\<rparr>)"
  using assms
  by (simp add: updateOrder_def updateOrder_catch_def log_error_def Let_def
      apply_patch_assignee_update status_step_assignee_update assign_step_rejected)

section \<open>Who is left out of a team notification\<close>

text \<open>
  C5, evaluated where it fails. \<open>updateOrder\<close> is not told who acts; the user it asks
  the team notification to leave out is the one the order was assigned to before the
  update. In the example the order is assigned to \<open>u2\<close> and the team has the members
  \<open>u1\<close>, \<open>u2\<close> and \<open>u3\<close>: when \<open>u1\<close> assigns the order to the team, the notification
  leaves out \<open>u2\<close> and is addressed to \<open>u1\<close> and \<open>u3\<close>, so the acting user is notified.
\<close>

theorem team_notification_reaches_actor:
  "notifications (snd (updateOrder obliging ''O1'' (team_update (Some ''T1'')) small_store))
     = [TeamAssignmentNotification ''T1'' ''O1'' ''Takbyte'' ''Montage'' (Some ''u2'')]
   \<and> concat (map (recipients (snd (updateOrder obliging ''O1'' (team_update (Some ''T1''))
                                     small_store)))
               (notifications (snd (updateOrder obliging ''O1'' (team_update (Some ''T1''))
                                      small_store))))
       = [''u1'', ''u3'']"
  by (simp add: updateOrder_def Let_def obliging_def small_store_def roof_order_def
      fitters_def team_update_def apply_patch_def status_step_def assign_step_def
      team_step_def assigned_team_def createNotification_def createOrderActivity_def)

text \<open>
  In general: the user that a team notification of \<open>updateOrder\<close> leaves out is the
  assignee the order had before the update, or nobody.
\<close>

lemma team_step_excluded_user:
  assumes "TeamAssignmentNotification t i' title name excluded
             \<in> set (notifications (snd (team_step e i updates cur dat s)))"
    and "TeamAssignmentNotification t i' title name excluded \<notin> set (notifications s)"
  shows "excluded = (if truthy (order_assigned_to_user_id cur)
                     then order_assigned_to_user_id cur else None)"
  using assms
  by (auto simp: team_step_def createNotification_def createOrderActivity_def Let_def
      log_error_def
      split: option.splits if_splits outcome.splits prod.splits awaited.splits)

section \<open>The kinds of the activities that are written\<close>

lemma log_error_activities:
  "order_activities (log_error msg s) = order_activities s"
  by (simp add: log_error_def)

lemma createOrderActivity_kinds:
  assumes "k \<in> set order_activity_kinds"
    and "activity_type ` set (order_activities s) \<subseteq> set order_activity_kinds"
  shows "activity_type ` set (order_activities (snd (createOrderActivity e i u k descr ov nv s)))
           \<subseteq> set order_activity_kinds"
  using assms
  by (auto simp: createOrderActivity_def Let_def log_error_def split: outcome.split)

lemma createNotification_activities:
  "order_activities (snd (createNotification e n s)) = order_activities s"
  by (simp add: createNotification_def split: outcome.split)

lemma status_step_kinds:
  assumes "activity_type ` set (order_activities s) \<subseteq> set order_activity_kinds"
  shows "activity_type ` set (order_activities (status_step e i updates cur dat s))
           \<subseteq> set order_activity_kinds"
proof -
  have k: "''status_changed'' \<in> set order_activity_kinds"
    by (simp add: order_activity_kinds_def)
  show ?thesis
    unfolding status_step_def Let_def
    using assms
    by (auto split: option.split
        intro!: createOrderActivity_kinds [OF k]
        simp: createStatusChangeNotification_tables)
qed

lemma assign_step_kinds:
  assumes "activity_type ` set (order_activities s) \<subseteq> set order_activity_kinds"
  shows "activity_type ` set (order_activities (snd (assign_step e i updates cur dat s)))
           \<subseteq> set order_activity_kinds"
proof -
  have k: "''assigned'' \<in> set order_activity_kinds"
    by (simp add: order_activity_kinds_def)
  show ?thesis
    unfolding assign_step_def
    using assms
    by (simp add: case_prod_beta createNotification_activities createOrderActivity_kinds [OF k]
        split: option.split awaited.split)
qed

lemma team_step_kinds:
  assumes "activity_type ` set (order_activities s) \<subseteq> set order_activity_kinds"
  shows "activity_type ` set (order_activities (snd (team_step e i updates cur dat s)))
           \<subseteq> set order_activity_kinds"
proof -
  have k: "''team_assigned'' \<in> set order_activity_kinds"
    by (simp add: order_activity_kinds_def)
  show ?thesis
    unfolding team_step_def
    using assms
    by (simp add: case_prod_beta createNotification_activities createOrderActivity_kinds [OF k]
        split: option.split awaited.split)
qed

lemma updateOrder_kinds:
  assumes "activity_type ` set (order_activities s) \<subseteq> set order_activity_kinds"
  shows "activity_type ` set (order_activities (snd (updateOrder e i updates s)))
           \<subseteq> set order_activity_kinds"
proof -
  have written: "activity_type ` set (order_activities
            (s\<lparr>orders := os, journal := js\<rparr>)) \<subseteq> set order_activity_kinds" for os js
    using assms by simp
  show ?thesis
    unfolding updateOrder_def updateOrder_catch_def Let_def
    using assms
    by (simp add: case_prod_beta log_error_activities
        team_step_kinds assign_step_kinds status_step_kinds written
        split: outcome.split option.split)
qed


lemma createOrder_kinds:
  assumes "activity_type ` set (order_activities s) \<subseteq> set order_activity_kinds"
  shows "activity_type ` set (order_activities (snd (createOrder e ord s)))
           \<subseteq> set order_activity_kinds"
proof -
  have k: "''created'' \<in> set order_activity_kinds"
    by (simp add: order_activity_kinds_def)
  show ?thesis
    unfolding createOrder_def Let_def
    using assms
    by (simp add: log_error_activities createOrderActivity_kinds [OF k] split: outcome.split)
qed

lemma createOrderNote_kinds:
  assumes "activity_type ` set (order_activities s) \<subseteq> set order_activity_kinds"
  shows "activity_type ` set (order_activities (snd (createOrderNote e note s)))
           \<subseteq> set order_activity_kinds"
proof -
  have k: "''note_added'' \<in> set order_activity_kinds"
    by (simp add: order_activity_kinds_def)
  show ?thesis
    unfolding createOrderNote_def Let_def
    using assms
    by (simp add: log_error_activities createOrderActivity_kinds [OF k] split: outcome.split)
qed

lemma updateLead_activities:
  "lead_activities (snd (updateLead e i p d)) = lead_activities d"
  by (simp add: updateLead_def split: outcome.split option.split)

lemma createLeadNote_activities:
  "lead_activities (snd (createLeadNote e i u c d)) = lead_activities d"
  by (simp add: createLeadNote_def Let_def split: outcome.split)

lemma createLeadActivity_kinds:
  assumes "k \<in> set lead_activity_kinds"
    and "lead_activity_type ` set (lead_activities d) \<subseteq> set lead_activity_kinds"
  shows "lead_activity_type ` set (lead_activities (snd (createLeadActivity e i u k descr d)))
           \<subseteq> set lead_activity_kinds"
  using assms
  by (auto simp: createLeadActivity_def Let_def split: outcome.split)

lemma handleStatusChange_kinds:
  assumes "lead_activity_type ` set (lead_activities d) \<subseteq> set lead_activity_kinds"
  shows "lead_activity_type ` set (lead_activities
           (snd (handleStatusChange e i newStatus oldStatus k d))) \<subseteq> set lead_activity_kinds"
proof -
  have kind: "''status_change'' \<in> set lead_activity_kinds"
    by (simp add: lead_activity_kinds_def)
  show ?thesis
    unfolding handleStatusChange_def Let_def
    using assms
    by (simp add: case_prod_beta createLeadActivity_kinds [OF kind]
        split: option.split awaited.split)
qed

lemma handleDrop_kinds:
  assumes "lead_activity_type ` set (lead_activities d) \<subseteq> set lead_activity_kinds"
  shows "lead_activity_type ` set (lead_activities (snd (handleDrop e newStatus k d)))
           \<subseteq> set lead_activity_kinds"
  unfolding handleDrop_def Let_def
  using assms
  by (simp add: case_prod_beta updateLead_activities handleStatusChange_kinds
      split: option.split awaited.split sum.split error.split)

lemma handleAssignmentChange_kinds:
  assumes "lead_activity_type ` set (lead_activities d) \<subseteq> set lead_activity_kinds"
  shows "lead_activity_type ` set (lead_activities
           (snd (handleAssignmentChange e i newAssignedUserId k d))) \<subseteq> set lead_activity_kinds"
proof -
  have kind: "''assignment_change'' \<in> set lead_activity_kinds"
    by (simp add: lead_activity_kinds_def)
  show ?thesis
    unfolding handleAssignmentChange_def Let_def
    using assms
    by (simp add: case_prod_beta updateLead_activities createLeadActivity_kinds [OF kind]
        split: option.split awaited.split sum.split error.split)
qed

lemma handleConvertToQuote_kinds:
  assumes "lead_activity_type ` set (lead_activities d) \<subseteq> set lead_activity_kinds"
  shows "lead_activity_type ` set (lead_activities (snd (handleConvertToQuote e k d)))
           \<subseteq> set lead_activity_kinds"
proof -
  have kind: "''converted_to_quote'' \<in> set lead_activity_kinds"
    by (simp add: lead_activity_kinds_def)
  show ?thesis
    unfolding handleConvertToQuote_def Let_def
    using assms
    by (simp add: case_prod_beta updateLead_activities createLeadActivity_kinds [OF kind]
        split: option.split awaited.split)
qed

lemma handleAddNote_kinds:
  assumes "lead_activity_type ` set (lead_activities d) \<subseteq> set lead_activity_kinds"
  shows "lead_activity_type ` set (lead_activities (snd (handleAddNote e k d)))
           \<subseteq> set lead_activity_kinds"
proof -
  have kind: "''note_added'' \<in> set lead_activity_kinds"
    by (simp add: lead_activity_kinds_def)
  show ?thesis
    unfolding handleAddNote_def Let_def
    using assms
    by (simp add: case_prod_beta createLeadNote_activities createLeadActivity_kinds [OF kind]
        split: option.split awaited.split sum.split error.split)
qed


text \<open>
  C8, as the code has it. The order module and the lead board each keep to a vocabulary
  of their own. If the activities of the orders so far have kinds among \<open>created\<close>,
  \<open>status_changed\<close>, \<open>assigned\<close>, \<open>team_assigned\<close> and \<open>note_added\<close>, they still do
  after \<open>createOrder\<close>, \<open>updateOrder\<close> and \<open>createOrderNote\<close>, whatever the store
  replies; these five kinds belong to the enum of the data model. If the activities of
  the leads so far have kinds among \<open>status_change\<close>, \<open>assignment_change\<close>,
  \<open>note_added\<close> and \<open>converted_to_quote\<close>, they still do after each handler of the
  board; of these four kinds only \<open>note_added\<close> belongs to the enum.
\<close>

theorem activity_kinds_by_module:
  assumes "activity_type ` set (order_activities s) \<subseteq> set order_activity_kinds"
    and "lead_activity_type ` set (lead_activities d) \<subseteq> set lead_activity_kinds"
  shows "activity_type ` set (order_activities (snd (createOrder e ord s)))
           \<subseteq> set order_activity_kinds
       \<and> activity_type ` set (order_activities (snd (updateOrder e i updates s)))
           \<subseteq> set order_activity_kinds
       \<and> activity_type ` set (order_activities (snd (createOrderNote e note s)))
           \<subseteq> set order_activity_kinds
       \<and> lead_activity_type ` set (lead_activities (snd (handleDrop le newStatus k d)))
           \<subseteq> set lead_activity_kinds
       \<and> lead_activity_type ` set (lead_activities
             (snd (handleStatusChange le leadId newStatus oldStatus k d)))
           \<subseteq> set lead_activity_kinds
       \<and> lead_activity_type ` set (lead_activities
             (snd (handleAssignmentChange le leadId newAssignedUserId k d)))
           \<subseteq> set lead_activity_kinds
       \<and> lead_activity_type ` set (lead_activities (snd (handleConvertToQuote le k d)))
           \<subseteq> set lead_activity_kinds
       \<and> lead_activity_type ` set (lead_activities (snd (handleAddNote le k d)))
           \<subseteq> set lead_activity_kinds
       \<and> set order_activity_kinds \<subseteq> set activity_kinds
       \<and> set lead_activity_kinds \<inter> set activity_kinds = {''note_added''}"
proof -
  have "set order_activity_kinds \<subseteq> set activity_kinds"
    by (simp add: order_activity_kinds_def activity_kinds_def)
  moreover have "set lead_activity_kinds \<inter> set activity_kinds = {''note_added''}"
    by (simp add: lead_activity_kinds_def activity_kinds_def)
  ultimately show ?thesis
    using assms
    by (simp add: createOrder_kinds updateOrder_kinds createOrderNote_kinds handleDrop_kinds
        handleStatusChange_kinds handleAssignmentChange_kinds handleConvertToQuote_kinds
        handleAddNote_kinds)
qed

theorem activity_kinds_by_module_witness:
  "activity_type ` set (order_activities
       (snd (updateOrder obliging ''O1'' (status_update ''contacted'')
               (snd (createOrder obliging floor_order small_store)))))
     \<subseteq> set order_activity_kinds
   \<and> map activity_type (order_activities
       (snd (updateOrder obliging ''O1'' (status_update ''contacted'')
               (snd (createOrder obliging floor_order small_store)))))
     = [''created'', ''status_changed'']
   \<and> lead_activity_type ` set (lead_activities
       (snd (handleAssignmentChange obliging_lead_store ''L1'' ''u2'' board small_lead_db)))
     \<subseteq> set lead_activity_kinds
   \<and> map lead_activity_type (lead_activities
       (snd (handleAssignmentChange obliging_lead_store ''L1'' ''u2'' board small_lead_db)))
     = [''assignment_change'']"
proof -
  have before: "order_activities (snd (createOrder obliging floor_order small_store)) =
      [\<lparr>activity_order_id = ''O2'', activity_user_id = None,
        activity_type = ''created'', activity_description = ''Order skapad'',
        activity_old_value = None, activity_new_value = None\<rparr>]"
    by (simp add: createOrder_def createOrderActivity_def Let_def obliging_def small_store_def)
  have "activity_type ` set (order_activities (snd (createOrder obliging floor_order small_store)))
          \<subseteq> set order_activity_kinds"
    unfolding before by (simp add: order_activity_kinds_def)
  moreover have "lead_activity_type ` set (lead_activities small_lead_db)
          \<subseteq> set lead_activity_kinds"
    by (simp add: small_lead_db_def)
  ultimately have kinds:
    "activity_type ` set (order_activities
       (snd (updateOrder obliging ''O1'' (status_update ''contacted'')
               (snd (createOrder obliging floor_order small_store)))))
     \<subseteq> set order_activity_kinds"
    "lead_activity_type ` set (lead_activities
       (snd (handleAssignmentChange obliging_lead_store ''L1'' ''u2'' board small_lead_db)))
     \<subseteq> set lead_activity_kinds"
    using activity_kinds_by_module
      [where s = "snd (createOrder obliging floor_order small_store)" and d = small_lead_db
         and e = obliging and i = "''O1''" and updates = "status_update ''contacted''"
         and le = obliging_lead_store and leadId = "''L1''" and newAssignedUserId = "''u2''"
         and k = board]
    by simp_all
  have "map activity_type (order_activities
       (snd (updateOrder obliging ''O1'' (status_update ''contacted'')
               (snd (createOrder obliging floor_order small_store)))))
     = [''created'', ''status_changed'']"
    by (simp add: updateOrder_def createOrder_def Let_def obliging_def small_store_def
        roof_order_def status_update_def apply_patch_def status_step_def assign_step_def
        team_step_def createStatusChangeNotification_def createNotification_def
        createOrderActivity_def)
  moreover have "map lead_activity_type (lead_activities
       (snd (handleAssignmentChange obliging_lead_store ''L1'' ''u2'' board small_lead_db)))
     = [''assignment_change'']"
    by (simp add: handleAssignmentChange_def updateLead_def createLeadActivity_def Let_def
        or_null_def obliging_lead_store_def board_def small_lead_db_def roof_lead_def)
  ultimately show ?thesis
    using kinds by simp
qed

text \<open>
  C8, as the specification states it, fails on the lead board: converting the lead of
  the example to a quote records an activity of kind \<open>converted_to_quote\<close>, and
  assigning it records one of kind \<open>assignment_change\<close>; neither kind is in the enum.
\<close>

theorem board_kinds_outside_enum:
  "map lead_activity_type
     (lead_activities (snd (handleConvertToQuote obliging_lead_store board small_lead_db)))
     = [''converted_to_quote'']
   \<and> ''converted_to_quote'' \<notin> set activity_kinds
   \<and> map lead_activity_type
       (lead_activities
          (snd (handleAssignmentChange obliging_lead_store ''L1'' ''u2'' board small_lead_db)))
     = [''assignment_change'']
   \<and> ''assignment_change'' \<notin> set activity_kinds"
  by (simp add: handleConvertToQuote_def handleAssignmentChange_def updateLead_def
      createLeadActivity_def apply_lead_patch_def Let_def or_null_def
      obliging_lead_store_def board_def small_lead_db_def roof_lead_def activity_kinds_def)

section \<open>One active session for each worker\<close>

lemma getActiveTimeLog_None:
  assumes "getActiveTimeLog logs w = None"
  shows "w \<notin> set (map time_log_user_id (filter (\<lambda>l. time_log_end l = None) logs))"
  using assms by (auto simp: getActiveTimeLog_def find_None_iff)

lemma startTimeTracking_single_active:
  assumes "single_active logs"
  shows "single_active (snd (startTimeTracking newId now orderId w workType loc weather logs))"
proof (cases "getActiveTimeLog logs w")
  case None
  then show ?thesis
    using assms getActiveTimeLog_None [OF None]
    by (simp add: startTimeTracking_def single_active_def Let_def)
next
  case (Some active)
  then show ?thesis
    using assms by (simp add: startTimeTracking_def)
qed

lemma set_end_active:
  "set (filter (\<lambda>l. time_log_end l = None) (set_end i now logs))
     \<subseteq> set (filter (\<lambda>l. time_log_end l = None) logs)"
  by (induction logs) auto

lemma set_end_single_active:
  assumes "single_active logs"
  shows "single_active (set_end i now logs)"
  using assms
proof (induction logs)
  case Nil
  then show ?case by simp
next
  case (Cons l logs)
  have tail: "single_active logs"
    using Cons.prems by (simp add: single_active_def split: if_splits)
  show ?case
  proof (cases "time_log_id l = i")
    case True
    then show ?thesis
      using tail by (simp add: single_active_def)
  next
    case False
    have "time_log_user_id ` set (filter (\<lambda>l. time_log_end l = None) (set_end i now logs))
            \<subseteq> time_log_user_id ` set (filter (\<lambda>l. time_log_end l = None) logs)"
      using set_end_active [of i now logs] by (rule image_mono)
    then show ?thesis
      using False Cons.prems Cons.IH [OF tail]
      by (auto simp: single_active_def)
  qed
qed

lemma stopTimeTracking_single_active:
  assumes "single_active logs"
  shows "single_active (snd (stopTimeTracking now i logs))"
  using assms
  by (simp add: stopTimeTracking_def set_end_single_active split: option.split)

lemma perform_single_active:
  assumes "single_active logs"
  shows "single_active (perform logs a)"
  using assms
  by (cases a) (simp_all add: startTimeTracking_single_active stopTimeTracking_single_active)

lemma foldl_perform_single_active:
  assumes "single_active logs"
  shows "single_active (foldl perform logs actions)"
  using assms
  by (induction actions arbitrary: logs) (simp_all add: perform_single_active)

text \<open>
  C1. After any sequence of start and stop actions no worker has two sessions whose end
  is null. If a worker has an active session, a start action for that worker fails with
  \<open>SessionAlreadyActive\<close> and leaves the table as it was: no session is created, the
  prior session is not closed, and \<open>getActiveTimeLog\<close> still returns it.
\<close>

theorem one_active_session_per_worker:
  "single_active (sessions_after actions)
   \<and> (getActiveTimeLog (sessions_after actions) w = Some active \<longrightarrow>
        startTimeTracking newId now orderId w workType loc weather (sessions_after actions)
          = (Inl SessionAlreadyActive, sessions_after actions)
        \<and> getActiveTimeLog
            (snd (startTimeTracking newId now orderId w workType loc weather
                    (sessions_after actions))) w = Some active
        \<and> single_active
            (snd (startTimeTracking newId now orderId w workType loc weather
                    (sessions_after actions))))"
proof -
  have inv: "single_active (sessions_after actions)"
    unfolding sessions_after_def
    by (rule foldl_perform_single_active) (simp add: single_active_def)
  show ?thesis
    using inv by (simp add: startTimeTracking_def)
qed

theorem one_active_session_per_worker_witness:
  "sessions_after [StartAction ''S1'' 10 ''O1'' ''w1'' None None None] = [first_session]
   \<and> getActiveTimeLog [first_session] ''w1'' = Some first_session
   \<and> startTimeTracking ''S2'' 11 ''O2'' ''w1'' None None None [first_session]
       = (Inl SessionAlreadyActive, [first_session])
   \<and> getActiveTimeLog
       (snd (startTimeTracking ''S2'' 11 ''O2'' ''w1'' None None None [first_session])) ''w1''
       = Some first_session
   \<and> single_active [first_session]"
proof -
  have run: "sessions_after [StartAction ''S1'' 10 ''O1'' ''w1'' None None None] = [first_session]"
    by (simp add: sessions_after_def startTimeTracking_def getActiveTimeLog_def Let_def
        first_session_def)
  have active: "getActiveTimeLog [first_session] ''w1'' = Some first_session"
    by (simp add: getActiveTimeLog_def first_session_def)
  show ?thesis
    using one_active_session_per_worker
      [where actions = "[StartAction ''S1'' 10 ''O1'' ''w1'' None None None]"
         and w = "''w1''" and active = first_session and newId = "''S2''" and now = 11
         and orderId = "''O2''" and workType = None and loc = None and weather = None]
    unfolding run using active by simp
qed

text \<open>
  On the schedule page a start while a session is active only shows the error, and the
  page offers no start button while it knows of an active session.
\<close>

lemma handleStartTracking_while_active:
  assumes "schedule_user ui = Some w" and "current_location e = Resolved loc"
    and "getActiveTimeLog logs w = Some active"
  shows "handleStartTracking e orderId workType ui logs =
           (ui\<lparr>schedule_toasts := schedule_toasts ui
                 @ [TrackingError ''Kunde inte starta tidtagning''
                      (Some (error_message e SessionAlreadyActive))]\<rparr>, logs)"
  using assms by (simp add: handleStartTracking_def startTimeTracking_def)

lemma start_button_hidden_while_tracking:
  assumes "activeTimeLog ui = Some active"
  shows "tracking_control ui isPast related \<noteq> StartButton"
  using assms by (simp add: tracking_control_def)

text \<open>
  For an event without \<open>related_order_id\<close> the page shows the stop button when no
  session is known, and the start button only for an event that has the property.
\<close>

lemma stop_button_without_related_order:
  assumes "activeTimeLog ui = None"
  shows "tracking_control ui False None = StopButton"
    and "tracking_control ui False (Some r) = StartButton"
  using assms by (simp_all add: tracking_control_def)

text \<open>The handlers of the page keep the invariant as well.\<close>

lemma handleStartTracking_single_active:
  assumes "single_active logs"
  shows "single_active (snd (handleStartTracking e orderId workType ui logs))"
  using assms
    startTimeTracking_single_active [OF assms]
  by (simp add: handleStartTracking_def start_failed_def case_prod_beta
      split: awaited.split option.split sum.split)

lemma handleStopTracking_single_active:
  assumes "single_active logs"
  shows "single_active (snd (handleStopTracking e ui logs))"
  using assms
    stopTimeTracking_single_active [OF assms]
  by (simp add: handleStopTracking_def case_prod_beta split: option.split sum.split)

end
